theory Spec2Isabelle
  imports Complex_Main
begin

section \<open>Numbers and arrays as Python and numpy have them\<close>

text \<open>
  The synthesis code computes in IEEE 754 binary64. \<open>fl64\<close> rounds a real to the nearest
  double, ties to even, with gradual underflow below \<open>2 ^ - 1022\<close>; every arithmetic operation
  of the source is the exact operation followed by \<open>fl64\<close>, and a decimal literal such as
  \<open>0.005\<close> is \<open>fl64 0.005\<close>. Results beyond the largest double, where the machine gives
  infinity, are outside the model, as are arrays too large to allocate. Arguments of the
  generators are taken to be doubles already. Integers below \<open>2 ^ 53\<close>, such as a sample rate
  or an array index, convert to doubles exactly.
\<close>

definition round_half_even :: "real \<Rightarrow> int" where
  "round_half_even r =
     (let f = \<lfloor>r\<rfloor>; d = r - of_int f
      in if d < 1 / 2 then f else if 1 / 2 < d then f + 1 else if even f then f else f + 1)"

definition binade :: "real \<Rightarrow> int" where
  "binade x = max \<lfloor>log 2 \<bar>x\<bar>\<rfloor> (- 1022)"

definition fl64 :: "real \<Rightarrow> real" where
  "fl64 x =
     (if x = 0 then 0
      else of_int (round_half_even (x * 2 powi (52 - binade x))) * 2 powi (binade x - 52))"

text \<open>\<open>int(x)\<close> of a float truncates toward zero.\<close>

definition py_int :: "real \<Rightarrow> int" where
  "py_int x = (if 0 \<le> x then \<lfloor>x\<rfloor> else \<lceil>x\<rceil>)"

text \<open>
  \<open>x % 1.0\<close> on a float array: the C remainder \<open>fmod(x, 1.0)\<close>, which is exact and has the
  sign of \<open>x\<close>, moved up by \<open>1.0\<close> when it is negative.
\<close>

definition np_mod1 :: "real \<Rightarrow> real" where
  "np_mod1 x = (let m = x - of_int (py_int x) in if m < 0 then fl64 (m + 1) else m)"

text \<open>
  \<open>np.exp\<close> and \<open>np.sin\<close>, taken as correctly rounded (the C library may be off by one unit in
  the last place; only the drums use them).
\<close>

definition np_exp :: "real \<Rightarrow> real" where
  "np_exp x = fl64 (exp x)"

definition np_sin :: "real \<Rightarrow> real" where
  "np_sin x = fl64 (sin x)"

text \<open>
  \<open>np.linspace(start, stop, num, endpoint)\<close>: the step is \<open>(stop - start) / dv\<close> with
  \<open>dv = num - 1\<close> or \<open>num\<close>; element \<open>i\<close> is \<open>i * step + start\<close> (with the two fallbacks of
  numpy for \<open>dv = 0\<close> and for a step that underflows to zero), and with the end point included
  the last element is set to \<open>stop\<close> itself.
\<close>

definition np_linspace :: "real \<Rightarrow> real \<Rightarrow> nat \<Rightarrow> bool \<Rightarrow> real list" where
  "np_linspace start stop num endpoint =
     (let dv = (if endpoint then num - 1 else num);
          delta = fl64 (stop - start);
          step = fl64 (delta / real dv);
          y = map (\<lambda>i. if dv = 0 then fl64 (real i * delta)
                       else if step = 0 then fl64 (fl64 (real i / real dv) * delta)
                       else fl64 (real i * step)) [0..<num];
          y1 = map (\<lambda>v. fl64 (v + start)) y
      in if endpoint \<and> 1 < num then y1[num - 1 := stop] else y1)"

text \<open>
  \<open>xs[lo:hi] = vals\<close> on a one-dimensional array: numpy accepts a value of the slice's own
  length or of length one (which it repeats) and raises ValueError otherwise.
\<close>

definition assign_slice :: "nat \<Rightarrow> nat \<Rightarrow> real list \<Rightarrow> real list \<Rightarrow> real list option" where
  "assign_slice lo hi vals xs =
     (if length vals = hi - lo then Some (take lo xs @ vals @ drop hi xs)
      else case vals of
             [v] \<Rightarrow> Some (take lo xs @ replicate (hi - lo) v @ drop hi xs)
           | _ \<Rightarrow> None)"

text \<open>
  The envelope block that the three tone generators share:
  \<open>envelope = np.ones(samples)\<close>, then, when \<open>fade > 0\<close>,
  \<open>envelope[:fade] = np.linspace(0, 1, fade)\<close> and \<open>envelope[-fade:] = np.linspace(1, 0, fade)\<close>.
  The slice \<open>[:fade]\<close> ends at \<open>min fade samples\<close> and \<open>[-fade:]\<close> starts at
  \<open>samples - min fade samples\<close>.
\<close>

definition fade_envelope :: "nat \<Rightarrow> nat \<Rightarrow> real list option" where
  "fade_envelope samples fade =
     (let envelope = replicate samples 1 in
      if 0 < fade then
        (case assign_slice 0 (min fade samples) (np_linspace 0 1 fade True) envelope of
           None \<Rightarrow> None
         | Some e1 \<Rightarrow>
             assign_slice (samples - min fade samples) samples (np_linspace 1 0 fade True) e1)
      else Some envelope)"

text \<open>
  \<open>wave *= envelope * volume\<close>, and \<open>(wave * 32767).astype(np.int16)\<close>. The cast truncates
  toward zero and yields a 16-bit value whatever it is given; a value outside the 16-bit range
  is taken to wrap, as the usual conversion through a 32-bit integer does.
\<close>

definition astype_int16 :: "real \<Rightarrow> int" where
  "astype_int16 x = signed_take_bit 15 (py_int x)"

definition apply_envelope :: "real list \<Rightarrow> real list \<Rightarrow> real \<Rightarrow> real list" where
  "apply_envelope wave envelope volume = map2 (\<lambda>w e. fl64 (w * fl64 (e * volume))) wave envelope"

definition quantize :: "real list \<Rightarrow> int list" where
  "quantize wave = map (\<lambda>w. astype_int16 (fl64 (w * 32767))) wave"

section \<open>The audio backend\<close>

text \<open>
  A sound is its array of stereo sample pairs. The backend is what pygame answers:
  \<open>mixer_init\<close> is the frequency that \<open>pygame.mixer.get_init()[0]\<close> returns (None when the
  mixer is not initialised, where the subscript raises), and \<open>play_raises ch\<close> tells whether
  \<open>Channel(ch).play\<close> raises. \<open>make_sound\<close> accepts a two-column array on an initialised mixer.
  The numpy random generator is a stream of draws from [0, 1), consumed from the front;
  \<open>np.random.uniform(low, high, n)\<close> scales each draw to \<open>low + (high - low) * u\<close>.
\<close>

type_synonym sound = "(int \<times> int) list"

type_synonym rng = "nat \<Rightarrow> real"

record backend =
  mixer_init :: "nat option"
  play_raises :: "nat \<Rightarrow> bool"

definition make_sound :: "backend \<Rightarrow> sound \<Rightarrow> sound option" where
  "make_sound be stereo = (case mixer_init be of None \<Rightarrow> None | Some _ \<Rightarrow> Some stereo)"

definition to_stereo_array :: "int list \<Rightarrow> sound" where
  "to_stereo_array arr = map (\<lambda>x. (x, x)) arr"

definition uniform :: "real \<Rightarrow> real \<Rightarrow> nat \<Rightarrow> rng \<Rightarrow> real list \<times> rng" where
  "uniform low high n g =
     (map (\<lambda>i. fl64 (low + fl64 (fl64 (high - low) * g i))) [0..<n], \<lambda>i. g (i + n))"

section \<open>Waveform generators\<close>

definition pulse_wave :: "backend \<Rightarrow> real \<Rightarrow> real \<Rightarrow> real \<Rightarrow> real \<Rightarrow> sound option" where
  "pulse_wave be freq duration duty volume =
     (case mixer_init be of
        None \<Rightarrow> None
      | Some sample_rate \<Rightarrow>
          let samples = py_int (fl64 (duration * real sample_rate)) in
          if samples \<le> 0 then None
          else
            let t = np_linspace 0 duration (nat samples) False;
                wave = map (\<lambda>x. if np_mod1 (fl64 (x * freq)) < duty then 1 else - 1) t
            in (case fade_envelope (nat samples)
                       (nat (py_int (fl64 (fl64 0.005 * real sample_rate)))) of
                 None \<Rightarrow> None
               | Some envelope \<Rightarrow>
                   make_sound be (to_stereo_array
                     (quantize (apply_envelope wave envelope volume)))))"

definition triangle_wave :: "backend \<Rightarrow> real \<Rightarrow> real \<Rightarrow> real \<Rightarrow> sound option" where
  "triangle_wave be freq duration volume =
     (case mixer_init be of
        None \<Rightarrow> None
      | Some sample_rate \<Rightarrow>
          let samples = py_int (fl64 (duration * real sample_rate)) in
          if samples \<le> 0 then None
          else
            let t = np_linspace 0 duration (nat samples) False;
                phase = map (\<lambda>x. fl64 (fl64 (x * freq) - of_int \<lfloor>fl64 (x * freq)\<rfloor>)) t;
                wave = map (\<lambda>p. fl64 (fl64 (2 * \<bar>fl64 (fl64 (2 * p) - 1)\<bar>) - 1)) phase
            in (case fade_envelope (nat samples)
                       (nat (py_int (fl64 (fl64 0.005 * real sample_rate)))) of
                 None \<Rightarrow> None
               | Some envelope \<Rightarrow>
                   make_sound be (to_stereo_array
                     (quantize (apply_envelope wave envelope volume)))))"

definition noise :: "backend \<Rightarrow> real \<Rightarrow> real \<Rightarrow> string \<Rightarrow> rng \<Rightarrow> sound option \<times> rng" where
  "noise be duration volume mode g =
     (case mixer_init be of
        None \<Rightarrow> (None, g)
      | Some sample_rate \<Rightarrow>
          let samples = py_int (fl64 (duration * real sample_rate)) in
          if samples \<le> 0 then (None, g)
          else
            let (drawn, g') = uniform (- 1) 1 (nat samples) g;
                wave = (if mode = ''white'' then drawn
                        else map (\<lambda>(i, w). if even i then fl64 (w * fl64 0.7) else w)
                               (enumerate 0 drawn))
            in (case fade_envelope (nat samples)
                       (nat (py_int (fl64 (fl64 0.003 * real sample_rate)))) of
                 None \<Rightarrow> (None, g')
               | Some envelope \<Rightarrow>
                   (make_sound be (to_stereo_array
                      (quantize (apply_envelope wave envelope volume))), g')))"

section \<open>Drum kit\<close>

definition drum :: "backend \<Rightarrow> real \<Rightarrow> string \<Rightarrow> real \<Rightarrow> rng \<Rightarrow> sound option \<times> rng" where
  "drum be duration type volume g =
     (if type = ''kick'' then
        (case mixer_init be of
           None \<Rightarrow> (None, g)
         | Some sample_rate \<Rightarrow>
             let samples = py_int (fl64 (duration * real sample_rate)) in
             if samples \<le> 0 then (None, g)
             else
               let t = np_linspace 0 duration (nat samples) False;
                   pitch = map (\<lambda>x. fl64 (120 * np_exp (fl64 (- x * 20)))) t;
                   kick_tone =
                     map2 (\<lambda>p x. fl64 (np_sin (fl64 (fl64 (fl64 (2 * fl64 pi) * p) * x)) *
                                        np_exp (fl64 (- x * 20)))) pitch t;
                   (drawn, g') = uniform (- fl64 0.3) (fl64 0.3) (nat samples) g;
                   nse = map2 (\<lambda>u x. fl64 (u * np_exp (fl64 (- x * 30)))) drawn t;
                   wave = map2 (\<lambda>k n. fl64 (fl64 (k + n) * volume)) kick_tone nse
               in (make_sound be (to_stereo_array (quantize wave)), g'))
      else if type = ''snare'' then
        (case mixer_init be of
           None \<Rightarrow> (None, g)
         | Some sample_rate \<Rightarrow>
             let samples = py_int (fl64 (duration * real sample_rate)) in
             if samples \<le> 0 then (None, g)
             else
               let t = np_linspace 0 duration (nat samples) False;
                   (drawn, g') = uniform (- 1) 1 (nat samples) g;
                   nse = map2 (\<lambda>u x. fl64 (u * np_exp (fl64 (- x * 20)))) drawn t;
                   tone = map (\<lambda>x. fl64 (np_sin (fl64 (fl64 (fl64 (2 * fl64 pi) * 180) * x)) *
                                          np_exp (fl64 (- x * 15)))) t;
                   wave = map2 (\<lambda>n k. fl64 (fl64 (fl64 (fl64 0.6 * n) + fl64 (fl64 0.4 * k)) * volume))
                            nse tone
               in (make_sound be (to_stereo_array (quantize wave)), g'))
      else if type = ''hat'' then noise be duration (fl64 (volume * fl64 0.7)) ''white'' g
      else (None, g))"

section \<open>Procedural loop generation\<close>

text \<open>
  The hand-authored parameters of each theme: bass frequencies, melody notes, tempo and the
  melody's duty cycle. The last branch of the source is a bare \<open>else\<close>, so every other
  name gets the parameters of \<open>last\<close>.
\<close>

definition theme_parameters :: "string \<Rightarrow> real list \<times> real list \<times> real \<times> real" where
  "theme_parameters level_name =
     (if level_name = ''ruins'' then
        ([110, 110, 98, 98], [220, 262, 294, 330, 0, 330, 294, 262], 120, 0.5)
      else if level_name = ''snowdin'' then
        ([98, 98, 110, 110], [330, 294, 262, 220, 0, 220, 262, 294], 140, 0.25)
      else if level_name = ''waterfall'' then
        ([65, 65, 73, 73], [196, 220, 262, 294, 0, 262, 220, 196], 100, 0.5)
      else if level_name = ''hotland'' then
        ([82, 82, 92, 92], [330, 311, 294, 262, 0, 294, 311, 330], 160, 0.125)
      else if level_name = ''core'' then
        ([110, 98, 110, 98], [349, 330, 311, 294, 0, 294, 311, 330], 180, 0.75)
      else
        ([65, 73, 65, 73], [220, 262, 330, 392, 0, 392, 330, 262], 200, 0.5))"

text \<open>
  The bass loop and the melody loop have one shape: a rest appends a beat of zeros, any other
  note appends the left column of the generated tone, and a missing or empty tone ends the
  generation. The mono arrays hold 16-bit values and zeros, so they are integer lists here.
\<close>

fun note_pattern :: "(real \<Rightarrow> sound option) \<Rightarrow> nat \<Rightarrow> real list \<Rightarrow> int list list option" where
  "note_pattern gen samples_per_beat [] = Some []"
| "note_pattern gen samples_per_beat (freq # freqs) =
     (if freq = 0 then
        map_option ((#) (replicate samples_per_beat 0)) (note_pattern gen samples_per_beat freqs)
      else
        (case gen freq of
           None \<Rightarrow> None
         | Some tone \<Rightarrow>
             if tone = [] then None
             else map_option ((#) (map fst tone)) (note_pattern gen samples_per_beat freqs)))"

text \<open>The 16-beat drum loop; the drums draw from the random generator in beat order.\<close>

fun drums_loop :: "backend \<Rightarrow> real \<Rightarrow> nat \<Rightarrow> nat list \<Rightarrow> rng \<Rightarrow> int list list option \<times> rng" where
  "drums_loop be beat_duration samples_per_beat [] g = (Some [], g)"
| "drums_loop be beat_duration samples_per_beat (i # rest) g =
     (if i mod 4 = 0 \<or> i mod 8 = 6 \<or> i mod 2 = 1 then
        (case (if i mod 4 = 0 then drum be beat_duration ''kick'' (fl64 0.6) g
               else if i mod 8 = 6 then drum be beat_duration ''snare'' 0.5 g
               else drum be beat_duration ''hat'' (fl64 0.3) g) of
           (None, g1) \<Rightarrow> (None, g1)
         | (Some d, g1) \<Rightarrow>
             if d = [] then (None, g1)
             else (case drums_loop be beat_duration samples_per_beat rest g1 of
                     (None, g2) \<Rightarrow> (None, g2)
                   | (Some ps, g2) \<Rightarrow> (Some (map fst d # ps), g2)))
      else
        (case drums_loop be beat_duration samples_per_beat rest g of
           (None, g2) \<Rightarrow> (None, g2)
         | (Some ps, g2) \<Rightarrow> (Some (replicate samples_per_beat 0 # ps), g2)))"

text \<open>\<open>if repeats > 0: arr = np.tile(arr, repeats)\<close>.\<close>

definition tile :: "int list \<Rightarrow> int \<Rightarrow> int list" where
  "tile arr repeats = (if 0 < repeats then concat (replicate (nat repeats) arr) else arr)"

definition to_stereo :: "backend \<Rightarrow> int list \<Rightarrow> sound option" where
  "to_stereo be arr = (if arr = [] then None else make_sound be (to_stereo_array arr))"

type_synonym loops = "sound \<times> sound \<times> sound"

definition generate_famicom_loop ::
  "backend \<Rightarrow> bool \<Rightarrow> string \<Rightarrow> real \<Rightarrow> rng \<Rightarrow> loops option \<times> rng" where
  "generate_famicom_loop be available level_name duration g =
     (if \<not> available then (None, g)
      else
        let (bass_freqs, melody_notes, tempo, duty) = theme_parameters level_name;
            beat_duration = fl64 (60 / tempo)
        in case mixer_init be of
             None \<Rightarrow> (None, g)
           | Some sample_rate \<Rightarrow>
               let samples_per_beat = py_int (fl64 (beat_duration * real sample_rate)) in
               if samples_per_beat \<le> 0 then (None, g)
               else
                 (case note_pattern (\<lambda>freq. triangle_wave be freq beat_duration 0.5)
                         (nat samples_per_beat) bass_freqs of
                    None \<Rightarrow> (None, g)
                  | Some bass_pattern \<Rightarrow>
                      let bass_array = tile (concat bass_pattern)
                            (py_int (fl64 (duration /
                               fl64 (real (length bass_freqs) * beat_duration))))
                      in (case note_pattern (\<lambda>note. pulse_wave be note beat_duration duty (fl64 0.4))
                                 (nat samples_per_beat) melody_notes of
                            None \<Rightarrow> (None, g)
                          | Some melody_pattern \<Rightarrow>
                              let melody_array = tile (concat melody_pattern)
                                    (py_int (fl64 (duration /
                                       fl64 (real (length melody_notes) * beat_duration))))
                              in (case drums_loop be beat_duration (nat samples_per_beat) [0..<16] g of
                                    (None, g1) \<Rightarrow> (None, g1)
                                  | (Some drums_pattern, g1) \<Rightarrow>
                                      let drums_array = tile (concat drums_pattern)
                                            (py_int (fl64 (duration / fl64 (16 * beat_duration))));
                                          target_samples = py_int (fl64 (duration * real sample_rate))
                                      in if target_samples \<le> 0 then (None, g1)
                                         else
                                           (case (to_stereo be (take (nat target_samples) bass_array),
                                                  to_stereo be (take (nat target_samples) melody_array),
                                                  to_stereo be (take (nat target_samples) drums_array)) of
                                              (Some bass_snd, Some melody_snd, Some drums_snd) \<Rightarrow>
                                                (Some (bass_snd, melody_snd, drums_snd), g1)
                                            | _ \<Rightarrow> (None, g1))))))"

section \<open>The sound manager\<close>

text \<open>
  The manager's fields, together with the two pieces of the world it acts on: the numpy random
  generator and the log of the calls issued to the mixer channels, in order.
\<close>

datatype mixer_op = Stop nat | Play nat sound | SetVolume nat real

datatype py_error = IndexError

record sound_manager =
  mixer_available :: bool
  music_channel :: "nat option"
  proc_channels :: "nat list"
  current_level :: "string option"
  route :: string
  target_volume :: real
  current_volume :: real
  speed :: real
  enemy_near :: bool
  proc_sounds :: "string \<rightharpoonup> loops"
  proc_target_volumes :: "real list"
  proc_current_volumes :: "real list"
  np_random :: rng
  mixer_log :: "mixer_op list"

text \<open>The constructor; \<open>init_ok\<close> tells whether the mixer and its channels could be opened.\<close>

definition sound_manager_init :: "bool \<Rightarrow> rng \<Rightarrow> sound_manager" where
  "sound_manager_init init_ok g =
     \<lparr> mixer_available = init_ok,
       music_channel = (if init_ok then Some 0 else None),
       proc_channels = (if init_ok then [1, 2, 3] else []),
       current_level = None,
       route = ''pacifist'',
       target_volume = 0.5,
       current_volume = 0.5,
       speed = 0,
       enemy_near = False,
       proc_sounds = Map.empty,
       proc_target_volumes = [0.5, 0.5, 0.5],
       proc_current_volumes = [0, 0, 0],
       np_random = g,
       mixer_log = [] \<rparr>"

text \<open>
  The three \<open>play\<close> calls inside one \<open>try\<close>: a missing channel (IndexError) or a raising
  \<open>play\<close> leaves the block, and the calls after it are not made.
\<close>

fun play_all :: "backend \<Rightarrow> nat list \<Rightarrow> (nat \<times> sound) list \<Rightarrow> mixer_op list \<Rightarrow> mixer_op list \<times> bool" where
  "play_all be chans [] lg = (lg, True)"
| "play_all be chans ((i, buf) # rest) lg =
     (if length chans \<le> i then (lg, False)
      else if play_raises be (chans ! i) then (lg @ [Play (chans ! i) buf], False)
      else play_all be chans rest (lg @ [Play (chans ! i) buf]))"

definition start_loops :: "backend \<Rightarrow> loops \<Rightarrow> sound_manager \<Rightarrow> sound_manager" where
  "start_loops be lps s =
     (case lps of (bass, melody, drums) \<Rightarrow>
        (case play_all be (proc_channels s) [(0, bass), (1, melody), (2, drums)] (mixer_log s) of
           (lg, False) \<Rightarrow> s\<lparr>mixer_log := lg, mixer_available := False\<rparr>
         | (lg, True) \<Rightarrow>
             s\<lparr>mixer_log := lg,
               proc_target_volumes := [0.5, 0.5, 0.5],
               proc_current_volumes := [0, 0, 0]\<rparr>))"

definition load_level :: "backend \<Rightarrow> string \<Rightarrow> sound_manager \<Rightarrow> sound_manager" where
  "load_level be level_name s =
     (if \<not> mixer_available s then s
      else if Some level_name = current_level s then s
      else
        let s1 = s\<lparr>current_level := Some level_name\<rparr>;
            s2 = s1\<lparr>mixer_log := mixer_log s1 @ map Stop (proc_channels s1)\<rparr>
        in case proc_sounds s2 level_name of
             Some lps \<Rightarrow> start_loops be lps s2
           | None \<Rightarrow>
               (case generate_famicom_loop be (mixer_available s2) level_name 4 (np_random s2) of
                  (None, g) \<Rightarrow> s2\<lparr>np_random := g, mixer_available := False\<rparr>
                | (Some lps, g) \<Rightarrow>
                    start_loops be lps
                      (s2\<lparr>np_random := g, proc_sounds := (proc_sounds s2)(level_name \<mapsto> lps)\<rparr>)))"

definition set_route :: "backend \<Rightarrow> string \<Rightarrow> sound_manager \<Rightarrow> sound_manager" where
  "set_route be r s =
     (if r \<noteq> route s then
        let s1 = s\<lparr>route := r\<rparr>
        in if current_level s1 = Some ''last'' then load_level be ''last'' s1 else s1
      else s)"

text \<open>
  The dynamic mixer. Its volume arithmetic is kept over the exact reals, which is how its
  convergence is stated. The smoothing loop of \<open>update\<close>: reading \<open>proc_current_volumes[i]\<close> past the end of the
  list raises IndexError, which \<open>update\<close> does not catch; \<open>set_volume\<close> is called on the
  channels that exist, and what it raises is swallowed.
\<close>

fun smooth_channels :: "nat list \<Rightarrow> sound_manager \<Rightarrow> py_error + sound_manager" where
  "smooth_channels [] s = Inr s"
| "smooth_channels (i # rest) s =
     (if length (proc_current_volumes s) \<le> i then Inl IndexError
      else
        let diff = target_volume s - proc_current_volumes s ! i;
            vols = (proc_current_volumes s)[i := proc_current_volumes s ! i + diff * 0.1];
            s1 = s\<lparr>proc_current_volumes := vols\<rparr>;
            s2 = (if i < length (proc_channels s1)
                  then s1\<lparr>mixer_log := mixer_log s1 @ [SetVolume (proc_channels s1 ! i) (vols ! i)]\<rparr>
                  else s1)
        in smooth_channels rest s2)"

definition base_vol :: "real \<Rightarrow> bool \<Rightarrow> real" where
  "base_vol player_speed near =
     (let v = 0.3 + 0.4 * min 1 (player_speed / 5) in if near then v * 0.5 else v)"

definition update :: "real \<Rightarrow> bool \<Rightarrow> sound_manager \<Rightarrow> py_error + sound_manager" where
  "update player_speed near s =
     (if \<not> mixer_available s then Inr s
      else
        smooth_channels [0..<3]
          (s\<lparr>speed := player_speed, enemy_near := near,
             target_volume := base_vol player_speed near\<rparr>))"

text \<open>
  The game loop drives the manager through three entry points, each against the backend as
  it is at the time of the call; an uncaught exception ends the run.
\<close>

datatype call = SelectTheme string | SetRoute string | Frame real bool

fun step :: "backend \<Rightarrow> call \<Rightarrow> sound_manager \<Rightarrow> py_error + sound_manager" where
  "step be (SelectTheme level_name) s = Inr (load_level be level_name s)"
| "step be (SetRoute r) s = Inr (set_route be r s)"
| "step be (Frame player_speed near) s = update player_speed near s"

fun run :: "(backend \<times> call) list \<Rightarrow> sound_manager \<Rightarrow> py_error + sound_manager" where
  "run [] s = Inr s"
| "run ((be, c) # rest) s = (case step be c s of Inl e \<Rightarrow> Inl e | Inr s1 \<Rightarrow> run rest s1)"

text \<open>
  The mixer as the constructor requests it: 22050 Hz, and channels whose \<open>play\<close> succeeds.
\<close>

definition famicom_backend :: backend where
  "famicom_backend = \<lparr> mixer_init = Some 22050, play_raises = (\<lambda>_. False) \<rparr>"

text \<open>
  What a tone generator with the fade length \<open>int(fade_seconds * sample_rate)\<close> hands back for a
  duration, in terms of the length of the buffer: nothing when the mixer is not initialised,
  when the sample count is not positive, or when the count is below a fade length of two or
  more; the sample count otherwise.
\<close>

definition buffer_length :: "backend \<Rightarrow> real \<Rightarrow> real \<Rightarrow> nat option" where
  "buffer_length be duration fade_seconds =
     (case mixer_init be of
        None \<Rightarrow> None
      | Some sr \<Rightarrow>
          if py_int (fl64 (duration * real sr)) \<le> 0 then None
          else if 1 < nat (py_int (fl64 (fade_seconds * real sr))) \<and>
                  nat (py_int (fl64 (duration * real sr))) < nat (py_int (fl64 (fade_seconds * real sr)))
          then None
          else Some (nat (py_int (fl64 (duration * real sr)))))"

text \<open>The sample lengths of the bass, melody and percussion buffers of a generated loop set.\<close>

definition loop_lengths :: "loops option \<Rightarrow> (nat \<times> nat \<times> nat) option" where
  "loop_lengths r = map_option (\<lambda>(b, m, d). (length b, length m, length d)) r"

text \<open>
  The state in which the constructor succeeded and the theme \<open>last\<close> was then selected, on
  the mixer as requested.
\<close>

definition last_selected :: sound_manager where
  "last_selected = load_level famicom_backend ''last'' (sound_manager_init True (\<lambda>_. 0))"

text \<open>\<open>n\<close> consecutive runs of the smoothing loop, the target volume left as it is.\<close>

fun smooth_frames :: "nat \<Rightarrow> sound_manager \<Rightarrow> py_error + sound_manager" where
  "smooth_frames 0 s = Inr s"
| "smooth_frames (Suc n) s =
     (case smooth_channels [0..<3] s of Inl e \<Rightarrow> Inl e | Inr s1 \<Rightarrow> smooth_frames n s1)"

section \<open>Rounding to doubles\<close>

lemma round_half_even_eq:
  assumes "\<bar>r - of_int m\<bar> < 1 / 2"
  shows "round_half_even r = m"
proof -
  have lb: "of_int m - 1 / 2 < r" and ub: "r < of_int m + 1 / 2"
    using assms unfolding abs_less_iff by linarith+
  show ?thesis
  proof (cases "of_int m \<le> r")
    case True
    have "r < of_int m + 1" using ub by linarith
    with True have f: "\<lfloor>r\<rfloor> = m" by (rule floor_unique)
    have "r - of_int m < 1 / 2" using ub by linarith
    then show ?thesis using f by (simp add: round_half_even_def Let_def)
  next
    case False
    have "of_int (m - 1) \<le> r" using lb by simp
    moreover have "r < of_int (m - 1) + 1" using False by simp
    ultimately have f: "\<lfloor>r\<rfloor> = m - 1" by (rule floor_unique)
    have "1 / 2 < r - of_int (m - 1)" using lb by simp
    then show ?thesis using f by (simp add: round_half_even_def Let_def)
  qed
qed

lemma binade_eq:
  assumes "2 powi k \<le> \<bar>x\<bar>" and "\<bar>x\<bar> < 2 powi (k + 1)" and "- 1022 \<le> k"
  shows "binade x = k"
proof -
  have pos: "0 < \<bar>x\<bar>" using assms(1) by (smt (verit) zero_less_power_int)
  have p1: "(2::real) powr real_of_int k = 2 powi k"
    by (rule powr_real_of_int') simp_all
  have p2: "(2::real) powr (real_of_int k + 1) = 2 powi (k + 1)"
    using powr_real_of_int' [of "2::real" "k + 1"] by simp
  have lo: "2 powr real_of_int k \<le> \<bar>x\<bar>" using assms(1) p1 by simp
  have hi: "\<bar>x\<bar> < 2 powr (real_of_int k + 1)" using assms(2) p2 by simp
  have "\<lfloor>log 2 \<bar>x\<bar>\<rfloor> = k"
    using floor_log_eq_powr_iff [of "\<bar>x\<bar>" 2 k] pos lo hi by simp
  then show ?thesis using assms(3) by (simp add: binade_def)
qed

lemma fl64_evalI:
  assumes "2 powi k \<le> \<bar>x\<bar>" and "\<bar>x\<bar> < 2 powi (k + 1)" and "- 1022 \<le> k"
    and "\<bar>x * 2 powi (52 - k) - of_int m\<bar> < 1 / 2"
    and "y = of_int m * 2 powi (k - 52)"
  shows "fl64 x = y"
proof -
  have b: "binade x = k" using assms(1-3) by (rule binade_eq)
  have "x \<noteq> 0" using assms(1) by (smt (verit) zero_less_power_int)
  then show ?thesis
    using round_half_even_eq [OF assms(4)] assms(5) by (simp add: fl64_def b)
qed

section \<open>Envelopes and quantisation\<close>

lemma length_np_linspace: "length (np_linspace start stop num endpoint) = num"
  by (simp add: np_linspace_def Let_def)

lemma assign_slice_None_iff:
  "assign_slice lo hi vals xs = None \<longleftrightarrow> length vals \<noteq> hi - lo \<and> length vals \<noteq> 1"
  by (auto simp: assign_slice_def split: list.splits)

lemma assign_slice_length:
  "assign_slice lo hi vals xs = Some ys \<Longrightarrow> lo \<le> hi \<Longrightarrow> hi \<le> length xs \<Longrightarrow> length ys = length xs"
  by (auto simp: assign_slice_def split: if_splits list.splits)

lemma fade_envelope_None_iff:
  "fade_envelope samples fade = None \<longleftrightarrow> 1 < fade \<and> samples < fade"
  by (auto simp: fade_envelope_def Let_def assign_slice_None_iff length_np_linspace
      split: option.splits if_splits)

lemma fade_envelope_length:
  assumes "fade_envelope samples fade = Some envelope"
  shows "length envelope = samples"
proof (cases "0 < fade")
  case False
  then show ?thesis using assms by (auto simp: fade_envelope_def)
next
  case True
  then obtain e1 where
    e1: "assign_slice 0 (min fade samples) (np_linspace 0 1 fade True) (replicate samples 1) = Some e1"
    and e2: "assign_slice (samples - min fade samples) samples (np_linspace 1 0 fade True) e1 = Some envelope"
    using assms by (auto simp: fade_envelope_def split: option.splits)
  have "length e1 = samples" using assign_slice_length [OF e1] by simp
  then show ?thesis using assign_slice_length [OF e2] by simp
qed


lemma length_apply_envelope:
  "length (apply_envelope wave envelope volume) = min (length wave) (length envelope)"
  by (simp add: apply_envelope_def)

lemma length_quantize: "length (quantize wave) = length wave"
  by (simp add: quantize_def)

lemma length_to_stereo_array: "length (to_stereo_array arr) = length arr"
  by (simp add: to_stereo_array_def)



section \<open>When the generators fail, and how long their buffers are\<close>

lemma pulse_wave_None_iff:
  "pulse_wave be freq duration duty volume = None \<longleftrightarrow>
     (case mixer_init be of
        None \<Rightarrow> True
      | Some sr \<Rightarrow> py_int (fl64 (duration * real sr)) \<le> 0 \<or>
          (1 < nat (py_int (fl64 (fl64 0.005 * real sr))) \<and>
           nat (py_int (fl64 (duration * real sr))) < nat (py_int (fl64 (fl64 0.005 * real sr)))))"
proof (cases "mixer_init be")
  case None
  then show ?thesis by (simp add: pulse_wave_def)
next
  case (Some sr)
  show ?thesis
    using Some fade_envelope_None_iff [of "nat (py_int (fl64 (duration * real sr)))"
        "nat (py_int (fl64 (fl64 0.005 * real sr)))"]
    by (auto simp: pulse_wave_def Let_def make_sound_def split: option.splits)
qed

lemma triangle_wave_None_iff:
  "triangle_wave be freq duration volume = None \<longleftrightarrow>
     (case mixer_init be of
        None \<Rightarrow> True
      | Some sr \<Rightarrow> py_int (fl64 (duration * real sr)) \<le> 0 \<or>
          (1 < nat (py_int (fl64 (fl64 0.005 * real sr))) \<and>
           nat (py_int (fl64 (duration * real sr))) < nat (py_int (fl64 (fl64 0.005 * real sr)))))"
proof (cases "mixer_init be")
  case None
  then show ?thesis by (simp add: triangle_wave_def)
next
  case (Some sr)
  show ?thesis
    using Some fade_envelope_None_iff [of "nat (py_int (fl64 (duration * real sr)))"
        "nat (py_int (fl64 (fl64 0.005 * real sr)))"]
    by (auto simp: triangle_wave_def Let_def make_sound_def split: option.splits)
qed

lemma noise_None_iff:
  "fst (noise be duration volume mode g) = None \<longleftrightarrow>
     (case mixer_init be of
        None \<Rightarrow> True
      | Some sr \<Rightarrow> py_int (fl64 (duration * real sr)) \<le> 0 \<or>
          (1 < nat (py_int (fl64 (fl64 0.003 * real sr))) \<and>
           nat (py_int (fl64 (duration * real sr))) < nat (py_int (fl64 (fl64 0.003 * real sr)))))"
proof (cases "mixer_init be")
  case None
  then show ?thesis by (simp add: noise_def)
next
  case (Some sr)
  show ?thesis
    using Some fade_envelope_None_iff [of "nat (py_int (fl64 (duration * real sr)))"
        "nat (py_int (fl64 (fl64 0.003 * real sr)))"]
    by (auto simp: noise_def Let_def make_sound_def split: option.splits prod.splits)
qed

lemma pulse_wave_length:
  "pulse_wave be freq duration duty volume = Some buf \<Longrightarrow> mixer_init be = Some sr \<Longrightarrow>
   length buf = nat (py_int (fl64 (duration * real sr)))"
  by (auto simp: pulse_wave_def Let_def make_sound_def length_to_stereo_array length_quantize
      length_apply_envelope length_np_linspace fade_envelope_length
      split: option.splits if_splits)

lemma triangle_wave_length:
  "triangle_wave be freq duration volume = Some buf \<Longrightarrow> mixer_init be = Some sr \<Longrightarrow>
   length buf = nat (py_int (fl64 (duration * real sr)))"
  by (auto simp: triangle_wave_def Let_def make_sound_def length_to_stereo_array length_quantize
      length_apply_envelope length_np_linspace fade_envelope_length
      split: option.splits if_splits)

lemma noise_length:
  "noise be duration volume mode g = (Some buf, g') \<Longrightarrow> mixer_init be = Some sr \<Longrightarrow>
   length buf = nat (py_int (fl64 (duration * real sr)))"
  by (auto simp: noise_def Let_def make_sound_def length_to_stereo_array length_quantize
      length_apply_envelope length_np_linspace fade_envelope_length uniform_def
      split: option.splits if_splits prod.splits)

lemma pulse_wave_length_spec:
  "map_option length (pulse_wave be freq duration duty volume) = buffer_length be duration (fl64 0.005)"
proof (cases "pulse_wave be freq duration duty volume")
  case None
  then show ?thesis
    using pulse_wave_None_iff [of be freq duration duty volume]
    by (auto simp: buffer_length_def split: option.splits)
next
  case (Some buf)
  then obtain sr where sr: "mixer_init be = Some sr"
    using pulse_wave_None_iff [of be freq duration duty volume] by (auto split: option.splits)
  show ?thesis
    using Some sr pulse_wave_length [OF Some sr] pulse_wave_None_iff [of be freq duration duty volume]
    by (auto simp: buffer_length_def)
qed

lemma triangle_wave_length_spec:
  "map_option length (triangle_wave be freq duration volume) = buffer_length be duration (fl64 0.005)"
proof (cases "triangle_wave be freq duration volume")
  case None
  then show ?thesis
    using triangle_wave_None_iff [of be freq duration volume]
    by (auto simp: buffer_length_def split: option.splits)
next
  case (Some buf)
  then obtain sr where sr: "mixer_init be = Some sr"
    using triangle_wave_None_iff [of be freq duration volume] by (auto split: option.splits)
  show ?thesis
    using Some sr triangle_wave_length [OF Some sr] triangle_wave_None_iff [of be freq duration volume]
    by (auto simp: buffer_length_def)
qed

lemma noise_length_spec:
  "map_option length (fst (noise be duration volume mode g)) = buffer_length be duration (fl64 0.003)"
proof (cases "fst (noise be duration volume mode g)")
  case None
  then show ?thesis
    using noise_None_iff [of be duration volume mode g]
    by (auto simp: buffer_length_def split: option.splits)
next
  case (Some buf)
  then obtain sr where sr: "mixer_init be = Some sr"
    using noise_None_iff [of be duration volume mode g] by (auto split: option.splits)
  obtain g' where g': "noise be duration volume mode g = (Some buf, g')"
    using Some by (cases "noise be duration volume mode g") auto
  show ?thesis
    using Some sr noise_length [OF g' sr] noise_None_iff [of be duration volume mode g]
    by (auto simp: buffer_length_def)
qed

section \<open>The constants of the mixer at 22050 Hz\<close>

text \<open>
  Each double used below is pinned by its binade and its 53-bit significand.
\<close>

lemma fade5_literal: "fl64 (0.005) = 5764607523034235 / 1152921504606846976"
  by (rule fl64_evalI [where k = "- 8" and m = "5764607523034235"]) simp_all

lemma fade5_at_22050: "fl64 (5764607523034235 / 1152921504606846976 * real (22050::nat)) = 441 / 4"
  by (rule fl64_evalI [where k = "6" and m = "7758154045587456"]) simp_all

lemma fade3_literal: "fl64 (0.003) = 3458764513820541 / 1152921504606846976"
  by (rule fl64_evalI [where k = "- 9" and m = "6917529027641082"]) simp_all

lemma fade3_at_22050: "fl64 (3458764513820541 / 1152921504606846976 * real (22050::nat)) = 2327446213676237 / 35184372088832"
  by (rule fl64_evalI [where k = "6" and m = "4654892427352474"]) simp_all

lemma target_at_22050: "fl64 (4 * real (22050::nat)) = 88200"
  by (rule fl64_evalI [where k = "16" and m = "6061057848115200"]) simp_all



lemma count_short_at_22050: "fl64 (1 / 1024 * real (22050::nat)) = 11025 / 512"
  by (rule fl64_evalI [where k = "4" and m = "6061057848115200"]) simp_all

lemma fade5_count_at_22050: "nat (py_int (fl64 (fl64 0.005 * real (22050::nat)))) = 110"
  by (simp only: fade5_literal fade5_at_22050) (simp add: py_int_def)

lemma fade3_count_at_22050: "nat (py_int (fl64 (fl64 0.003 * real (22050::nat)))) = 66"
  by (simp only: fade3_literal fade3_at_22050) (simp add: py_int_def)

lemma target_count_at_22050: "py_int (fl64 (4 * real (22050::nat))) = 88200"
  by (simp only: target_at_22050) (simp add: py_int_def)



lemma count_short: "py_int (fl64 (1 / 1024 * real (22050::nat))) = 21"
  by (simp only: count_short_at_22050) (simp add: py_int_def)

lemma famicom_backend_init: "mixer_init famicom_backend = Some 22050"
  by (simp add: famicom_backend_def)



lemma buffer_length_short5: "buffer_length famicom_backend (1 / 1024) (fl64 0.005) = None"
  by (simp only: buffer_length_def famicom_backend_init option.case count_short fade5_count_at_22050)
     simp

lemma buffer_length_short3: "buffer_length famicom_backend (1 / 1024) (fl64 0.003) = None"
  by (simp only: buffer_length_def famicom_backend_init option.case count_short fade3_count_at_22050)
     simp










lemma literal_0_3: "fl64 (0.3) = 5404319552844595 / 18014398509481984"
  by (rule fl64_evalI [where k = "- 2" and m = "5404319552844595"]) simp_all

lemma double_0_3_at_22050: "fl64 (5404319552844595 / 18014398509481984 * real (22050::nat)) = 6615"
  by (rule fl64_evalI [where k = "12" and m = "7273269417738240"]) simp_all

lemma double_110_22050: "fl64 (110 / 22050) = 2875767925323201 / 576460752303423488"
  by (rule fl64_evalI [where k = "- 8" and m = "5751535850646402"]) simp_all

lemma double_110_22050_at_22050: "fl64 (2875767925323201 / 576460752303423488 * real (22050::nat)) = 110"
  by (rule fl64_evalI [where k = "6" and m = "7740561859543040"]) simp_all




text \<open>
  The counts follow the rounded product: the double nearest to 0.3 lies below 0.3, yet its
  product with 22050 rounds to 6615, and the double nearest to 110 / 22050 gives 110.
\<close>

lemma count_at_double_0_3: "py_int (fl64 (fl64 0.3 * real (22050::nat))) = 6615"
  unfolding literal_0_3 double_0_3_at_22050 by (simp add: py_int_def)

lemma count_at_double_110_22050: "py_int (fl64 (fl64 (110 / 22050) * real (22050::nat))) = 110"
  unfolding double_110_22050 double_110_22050_at_22050 by (simp add: py_int_def)

lemma buffer_at_double_110_22050:
  "buffer_length famicom_backend (fl64 (110 / 22050)) (fl64 0.005) = Some 110"
  by (simp only: buffer_length_def famicom_backend_init option.case count_at_double_110_22050
      fade5_count_at_22050) simp




section \<open>Lengths of the generated loops\<close>

lemma drum_kick_snare:
  assumes "mixer_init be = Some sr" and "0 < py_int (fl64 (duration * real sr))"
    and "type = ''kick'' \<or> type = ''snare''"
  shows "\<exists>buf g'. drum be duration type volume g = (Some buf, g') \<and>
                  length buf = nat (py_int (fl64 (duration * real sr)))"
  using assms
  by (auto simp: drum_def Let_def make_sound_def to_stereo_array_def quantize_def uniform_def
      length_np_linspace split: prod.splits)

lemma drum_hat:
  assumes init: "mixer_init be = Some sr" and pos: "0 < py_int (fl64 (duration * real sr))"
    and fade: "nat (py_int (fl64 (fl64 0.003 * real sr))) \<le> nat (py_int (fl64 (duration * real sr)))"
  shows "\<exists>buf g'. drum be duration ''hat'' volume g = (Some buf, g') \<and>
                  length buf = nat (py_int (fl64 (duration * real sr)))"
proof -
  have "buffer_length be duration (fl64 0.003) = Some (nat (py_int (fl64 (duration * real sr))))"
    using init pos fade by (auto simp: buffer_length_def)
  then have "map_option length (fst (noise be duration (fl64 (volume * fl64 0.7)) ''white'' g)) =
             Some (nat (py_int (fl64 (duration * real sr))))"
    by (simp only: noise_length_spec)
  then obtain buf where "fst (noise be duration (fl64 (volume * fl64 0.7)) ''white'' g) = Some buf"
    and "length buf = nat (py_int (fl64 (duration * real sr)))" by auto
  then show ?thesis by (cases "noise be duration (fl64 (volume * fl64 0.7)) ''white'' g") (auto simp: drum_def)
qed

lemma length_concat_uniform: "\<forall>p \<in> set ps. length p = k \<Longrightarrow> length (concat ps) = length ps * k"
  by (induction ps) auto

lemma note_pattern_lengths:
  assumes gen: "\<And>freq. freq \<noteq> 0 \<Longrightarrow> \<exists>tone. gen freq = Some tone \<and> length tone = spb"
    and pos: "0 < spb"
  shows "\<exists>ps. note_pattern gen spb freqs = Some ps \<and> length ps = length freqs \<and>
              (\<forall>p \<in> set ps. length p = spb)"
proof (induction freqs)
  case Nil
  then show ?case by simp
next
  case (Cons freq freqs)
  then obtain ps where ps: "note_pattern gen spb freqs = Some ps" "length ps = length freqs"
    "\<forall>p \<in> set ps. length p = spb" by blast
  show ?case
  proof (cases "freq = 0")
    case True
    then show ?thesis using ps by simp
  next
    case False
    from gen [OF False] obtain tone where tone: "gen freq = Some tone" "length tone = spb" by blast
    then have "tone \<noteq> []" using pos by auto
    then show ?thesis using False tone ps by simp
  qed
qed

lemma drums_loop_lengths:
  assumes init: "mixer_init be = Some sr" and pos: "0 < py_int (fl64 (beat_duration * real sr))"
    and fade: "nat (py_int (fl64 (fl64 0.003 * real sr))) \<le> nat (py_int (fl64 (beat_duration * real sr)))"
    and spb: "spb = nat (py_int (fl64 (beat_duration * real sr)))"
  shows "\<exists>ps g'. drums_loop be beat_duration spb beats g = (Some ps, g') \<and>
                 length ps = length beats \<and> (\<forall>p \<in> set ps. length p = spb)"
proof (induction beats arbitrary: g)
  case Nil
  then show ?case by simp
next
  case (Cons i rest)
  have spb_pos: "0 < spb" using pos spb by simp
  have dr: "\<exists>buf g'. drum be beat_duration ty v g = (Some buf, g') \<and> length buf = spb"
    if "ty = ''kick'' \<or> ty = ''snare'' \<or> ty = ''hat''" for ty v
    using that drum_kick_snare [OF init pos, of ty v g] drum_hat [OF init pos fade, of v g] spb
    by blast
  show ?case
  proof (cases "i mod 4 = 0 \<or> i mod 8 = 6 \<or> i mod 2 = 1")
    case False
    from Cons.IH [of g] obtain ps g' where
      "drums_loop be beat_duration spb rest g = (Some ps, g')" "length ps = length rest"
      "\<forall>p \<in> set ps. length p = spb" by blast
    then show ?thesis using False by simp
  next
    case True
    define call where "call = (if i mod 4 = 0 then drum be beat_duration ''kick'' (fl64 0.6) g
               else if i mod 8 = 6 then drum be beat_duration ''snare'' 0.5 g
               else drum be beat_duration ''hat'' (fl64 0.3) g)"
    have "\<exists>buf g1. call = (Some buf, g1) \<and> length buf = spb"
      unfolding call_def using dr by auto
    then obtain buf g1 where buf: "call = (Some buf, g1)" "length buf = spb" by blast
    then have ne: "buf \<noteq> []" using spb_pos by auto
    from Cons.IH [of g1] obtain ps g' where ps:
      "drums_loop be beat_duration spb rest g1 = (Some ps, g')" "length ps = length rest"
      "\<forall>p \<in> set ps. length p = spb" by blast
    have "drums_loop be beat_duration spb (i # rest) g = (Some (map fst buf # ps), g')"
      using True buf(1) ne ps(1) unfolding call_def by simp
    then show ?thesis using ps buf by simp
  qed
qed

lemma length_tile: "length (tile arr repeats) = (if 0 < repeats then nat repeats * length arr else length arr)"
  by (simp add: tile_def length_concat sum_list_replicate)

lemma to_stereo_take:
  assumes "mixer_init be = Some sr" and "0 < n" and "arr \<noteq> []"
  shows "\<exists>buf. to_stereo be (take n arr) = Some buf \<and> length buf = min n (length arr)"
  using assms by (cases arr) (auto simp: to_stereo_def make_sound_def to_stereo_array_def min_def)

lemma gen_unfold:
  assumes tp: "theme_parameters level_name = (bass_freqs, melody_notes, tempo, duty)"
    and init: "mixer_init be = Some sr"
    and npos: "\<not> py_int (fl64 (fl64 (60 / tempo) * real sr)) \<le> 0"
    and ntgt: "\<not> py_int (fl64 (duration * real sr)) \<le> 0"
    and bp: "note_pattern (\<lambda>freq. triangle_wave be freq (fl64 (60 / tempo)) 0.5) (nat (py_int (fl64 (fl64 (60 / tempo) * real sr)))) bass_freqs = Some bp"
    and mp: "note_pattern (\<lambda>nt. pulse_wave be nt (fl64 (60 / tempo)) duty (fl64 0.4)) (nat (py_int (fl64 (fl64 (60 / tempo) * real sr)))) melody_notes = Some mp"
    and dp: "drums_loop be (fl64 (60 / tempo)) (nat (py_int (fl64 (fl64 (60 / tempo) * real sr)))) [0..<16] g = (Some dp, g1)"
    and b: "to_stereo be (take (nat (py_int (fl64 (duration * real sr)))) (tile (concat bp) (py_int (fl64 (duration / fl64 (real (length bass_freqs) * fl64 (60 / tempo))))))) = Some b"
    and m: "to_stereo be (take (nat (py_int (fl64 (duration * real sr)))) (tile (concat mp) (py_int (fl64 (duration / fl64 (real (length melody_notes) * fl64 (60 / tempo))))))) = Some m"
    and d: "to_stereo be (take (nat (py_int (fl64 (duration * real sr)))) (tile (concat dp) (py_int (fl64 (duration / fl64 (16 * fl64 (60 / tempo))))))) = Some d"
  shows "generate_famicom_loop be True level_name duration g = (Some (b, m, d), g1)"
  apply (simp only: generate_famicom_loop_def)
  apply (simp only: tp Let_def prod.case)
  apply (simp only: init option.case npos if_False not_True_eq_False)
  apply (simp only: bp option.case)
  apply (simp only: mp option.case)
  apply (simp only: dp option.case prod.case)
  apply (simp only: ntgt if_False)
  apply (simp only: b m d option.case prod.case)
  done

lemma generate_famicom_loop_lengths:
  assumes tp: "theme_parameters level_name = (bass_freqs, melody_notes, tempo, duty)"
    and init: "mixer_init be = Some sr"
    and pos: "0 < py_int (fl64 (fl64 (60 / tempo) * real sr))"
    and f5: "nat (py_int (fl64 (fl64 0.005 * real sr))) \<le> nat (py_int (fl64 (fl64 (60 / tempo) * real sr)))"
    and f3: "nat (py_int (fl64 (fl64 0.003 * real sr))) \<le> nat (py_int (fl64 (fl64 (60 / tempo) * real sr)))"
    and tgt: "0 < py_int (fl64 (duration * real sr))"
    and ne: "bass_freqs \<noteq> []" "melody_notes \<noteq> []"
  shows "\<exists>b m d g'.
           generate_famicom_loop be True level_name duration g = (Some (b, m, d), g') \<and>
           length b = min (nat (py_int (fl64 (duration * real sr))))
             (length (tile (replicate (length bass_freqs * nat (py_int (fl64 (fl64 (60 / tempo) * real sr)))) 0)
                (py_int (fl64 (duration / fl64 (real (length bass_freqs) * fl64 (60 / tempo))))))) \<and>
           length m = min (nat (py_int (fl64 (duration * real sr))))
             (length (tile (replicate (length melody_notes * nat (py_int (fl64 (fl64 (60 / tempo) * real sr)))) 0)
                (py_int (fl64 (duration / fl64 (real (length melody_notes) * fl64 (60 / tempo))))))) \<and>
           length d = min (nat (py_int (fl64 (duration * real sr))))
             (length (tile (replicate (16 * nat (py_int (fl64 (fl64 (60 / tempo) * real sr)))) 0)
                (py_int (fl64 (duration / fl64 (16 * fl64 (60 / tempo)))))))"
proof -
  let ?bd = "fl64 (60 / tempo)"
  let ?spb = "nat (py_int (fl64 (?bd * real sr)))"
  let ?T = "nat (py_int (fl64 (duration * real sr)))"
  have spb_pos: "0 < ?spb" using pos by simp
  have T_pos: "0 < ?T" using tgt by simp
  have bl5: "buffer_length be ?bd (fl64 0.005) = Some ?spb"
    using init pos f5 by (auto simp: buffer_length_def)
  have tri: "\<exists>tone. triangle_wave be freq ?bd 0.5 = Some tone \<and> length tone = ?spb" for freq
    using triangle_wave_length_spec [of be freq ?bd "0.5"] bl5 by auto
  have pul: "\<exists>tone. pulse_wave be nt ?bd duty (fl64 0.4) = Some tone \<and> length tone = ?spb" for nt
    using pulse_wave_length_spec [of be nt ?bd duty "fl64 0.4"] bl5 by auto
  from note_pattern_lengths [of "\<lambda>freq. triangle_wave be freq ?bd 0.5" ?spb bass_freqs] tri spb_pos
  obtain bp where bp: "note_pattern (\<lambda>freq. triangle_wave be freq ?bd 0.5) ?spb bass_freqs = Some bp"
    "length bp = length bass_freqs" "\<forall>p \<in> set bp. length p = ?spb" by blast
  from note_pattern_lengths [of "\<lambda>nt. pulse_wave be nt ?bd duty (fl64 0.4)" ?spb melody_notes] pul spb_pos
  obtain mp where mp: "note_pattern (\<lambda>nt. pulse_wave be nt ?bd duty (fl64 0.4)) ?spb melody_notes = Some mp"
    "length mp = length melody_notes" "\<forall>p \<in> set mp. length p = ?spb" by blast
  from drums_loop_lengths [OF init pos f3 refl, of "[0..<16]" g]
  obtain dp g1 where dp: "drums_loop be ?bd ?spb [0..<16] g = (Some dp, g1)"
    "length dp = 16" "\<forall>p \<in> set dp. length p = ?spb" by auto
  let ?ba = "tile (concat bp) (py_int (fl64 (duration / fl64 (real (length bass_freqs) * ?bd))))"
  let ?ma = "tile (concat mp) (py_int (fl64 (duration / fl64 (real (length melody_notes) * ?bd))))"
  let ?da = "tile (concat dp) (py_int (fl64 (duration / fl64 (16 * ?bd))))"
  have lb: "length (concat bp) = length bass_freqs * ?spb"
    using length_concat_uniform [OF bp(3)] bp(2) by simp
  have lm: "length (concat mp) = length melody_notes * ?spb"
    using length_concat_uniform [OF mp(3)] mp(2) by simp
  have ld: "length (concat dp) = 16 * ?spb"
    using length_concat_uniform [OF dp(3)] dp(2) by simp
  have "0 < length ?ba" using lb ne(1) spb_pos by (simp add: length_tile)
  then have "?ba \<noteq> []" by auto
  from to_stereo_take [OF init T_pos this]
  obtain b where b: "to_stereo be (take ?T ?ba) = Some b" "length b = min ?T (length ?ba)" by blast
  have "0 < length ?ma" using lm ne(2) spb_pos by (simp add: length_tile)
  then have "?ma \<noteq> []" by auto
  from to_stereo_take [OF init T_pos this]
  obtain m where m: "to_stereo be (take ?T ?ma) = Some m" "length m = min ?T (length ?ma)" by blast
  have "0 < length ?da" using ld spb_pos by (simp add: length_tile)
  then have "?da \<noteq> []" by auto
  from to_stereo_take [OF init T_pos this]
  obtain d where d: "to_stereo be (take ?T ?da) = Some d" "length d = min ?T (length ?da)" by blast
  have res: "generate_famicom_loop be True level_name duration g = (Some (b, m, d), g1)"
    using pos tgt by (intro gen_unfold [OF tp init _ _ bp(1) mp(1) dp(1) b(1) m(1) d(1)]) simp_all
  have eqb: "length (tile (replicate (length bass_freqs * ?spb) 0)
                (py_int (fl64 (duration / fl64 (real (length bass_freqs) * ?bd))))) = length ?ba"
    by (simp only: length_tile lb length_replicate)
  have eqm: "length (tile (replicate (length melody_notes * ?spb) 0)
                (py_int (fl64 (duration / fl64 (real (length melody_notes) * ?bd))))) = length ?ma"
    by (simp only: length_tile lm length_replicate)
  have eqd: "length (tile (replicate (16 * ?spb) 0) (py_int (fl64 (duration / fl64 (16 * ?bd))))) = length ?da"
    by (simp only: length_tile ld length_replicate)
  show ?thesis
    unfolding eqb eqm eqd using res b(2) m(2) d(2) by blast
qed

section \<open>Durations shorter than the fade\<close>

text \<open>
  C6. On the mixer at 22050 Hz a duration of \<open>2 ^ - 10\<close> seconds gives a sample count of 21:
  the mixer is initialised and the count is positive, yet the pulse, triangle and noise
  generators return no buffer. Their fade lengths are 110 and 66 samples, the assignment of the
  fade ramp to the shorter envelope raises, and the generator's handler turns that into None.
  The kick and the snare, which are built without an envelope, return their 21 sample pairs
  for the same duration.
\<close>

theorem short_duration_no_buffer:
  "mixer_init famicom_backend = Some 22050 \<and>
   py_int (fl64 (1 / 1024 * real (22050::nat))) = 21 \<and>
   pulse_wave famicom_backend 440 (1 / 1024) (1 / 2) (1 / 2) = None \<and>
   triangle_wave famicom_backend 440 (1 / 1024) (1 / 2) = None \<and>
   fst (noise famicom_backend (1 / 1024) (1 / 2) ''white'' g) = None \<and>
   map_option length (fst (drum famicom_backend (1 / 1024) ''kick'' (1 / 2) g)) = Some 21 \<and>
   map_option length (fst (drum famicom_backend (1 / 1024) ''snare'' (1 / 2) g)) = Some 21"
proof -
  have "map_option length (pulse_wave famicom_backend 440 (1 / 1024) (1 / 2) (1 / 2)) = None"
    by (simp only: pulse_wave_length_spec buffer_length_short5)
  then have p: "pulse_wave famicom_backend 440 (1 / 1024) (1 / 2) (1 / 2) = None" by simp
  have "map_option length (triangle_wave famicom_backend 440 (1 / 1024) (1 / 2)) = None"
    by (simp only: triangle_wave_length_spec buffer_length_short5)
  then have t: "triangle_wave famicom_backend 440 (1 / 1024) (1 / 2) = None" by simp
  have "map_option length (fst (noise famicom_backend (1 / 1024) (1 / 2) ''white'' g)) = None"
    by (simp only: noise_length_spec buffer_length_short3)
  then have n: "fst (noise famicom_backend (1 / 1024) (1 / 2) ''white'' g) = None" by simp
  have pos: "0 < py_int (fl64 (1 / 1024 * real (22050::nat)))" unfolding count_short by simp
  have k: "map_option length (fst (drum famicom_backend (1 / 1024) ''kick'' (1 / 2) g)) = Some 21"
    using drum_kick_snare [OF famicom_backend_init pos, of "''kick''" "1 / 2" g]
    unfolding count_short by auto
  have s: "map_option length (fst (drum famicom_backend (1 / 1024) ''snare'' (1 / 2) g)) = Some 21"
    using drum_kick_snare [OF famicom_backend_init pos, of "''snare''" "1 / 2" g]
    unfolding count_short by auto
  show ?thesis using famicom_backend_init count_short p t n k s by blast
qed

section \<open>The six themes at 22050 Hz\<close>

lemma loop_lengths_at_22050:
  assumes tp: "theme_parameters level_name = (bass_freqs, melody_notes, tempo, duty)"
    and lens: "length bass_freqs = nb" "length melody_notes = nm" "0 < nb" "0 < nm"
    and spb: "py_int (fl64 (fl64 (60 / tempo) * real (22050::nat))) = spb" "110 \<le> spb"
    and rb: "py_int (fl64 (4 / fl64 (real nb * fl64 (60 / tempo)))) = rb"
    and rm: "py_int (fl64 (4 / fl64 (real nm * fl64 (60 / tempo)))) = rm"
    and rd: "py_int (fl64 (4 / fl64 (16 * fl64 (60 / tempo)))) = rd"
  shows "loop_lengths (fst (generate_famicom_loop famicom_backend True level_name 4 g)) =
           Some (min 88200 (if 0 < rb then nat rb * (nb * nat spb) else nb * nat spb),
                 min 88200 (if 0 < rm then nat rm * (nm * nat spb) else nm * nat spb),
                 min 88200 (if 0 < rd then nat rd * (16 * nat spb) else 16 * nat spb))"
proof -
  have init: "mixer_init famicom_backend = Some 22050" by (rule famicom_backend_init)
  have ne: "bass_freqs \<noteq> []" "melody_notes \<noteq> []" using lens by auto
  have pos: "0 < py_int (fl64 (fl64 (60 / tempo) * real (22050::nat)))" using spb by simp
  have f5: "nat (py_int (fl64 (fl64 0.005 * real (22050::nat)))) \<le>
            nat (py_int (fl64 (fl64 (60 / tempo) * real (22050::nat))))"
    unfolding fade5_count_at_22050 spb(1) using spb(2) by simp
  have f3: "nat (py_int (fl64 (fl64 0.003 * real (22050::nat)))) \<le>
            nat (py_int (fl64 (fl64 (60 / tempo) * real (22050::nat))))"
    unfolding fade3_count_at_22050 spb(1) using spb(2) by simp
  have tgt: "0 < py_int (fl64 (4 * real (22050::nat)))" unfolding target_count_at_22050 by simp
  have T: "nat (py_int (fl64 (4 * real (22050::nat)))) = 88200"
    unfolding target_count_at_22050 by simp
  from generate_famicom_loop_lengths [OF tp init pos f5 f3 tgt ne, of g]
  obtain b m d g' where
    res: "generate_famicom_loop famicom_backend True level_name 4 g = (Some (b, m, d), g')"
    and lb: "length b = min (nat (py_int (fl64 (4 * real (22050::nat)))))
             (length (tile (replicate (length bass_freqs * nat (py_int (fl64 (fl64 (60 / tempo) * real (22050::nat))))) 0)
                (py_int (fl64 (4 / fl64 (real (length bass_freqs) * fl64 (60 / tempo)))))))"
    and lm: "length m = min (nat (py_int (fl64 (4 * real (22050::nat)))))
             (length (tile (replicate (length melody_notes * nat (py_int (fl64 (fl64 (60 / tempo) * real (22050::nat))))) 0)
                (py_int (fl64 (4 / fl64 (real (length melody_notes) * fl64 (60 / tempo)))))))"
    and ld: "length d = min (nat (py_int (fl64 (4 * real (22050::nat)))))
             (length (tile (replicate (16 * nat (py_int (fl64 (fl64 (60 / tempo) * real (22050::nat))))) 0)
                (py_int (fl64 (4 / fl64 (16 * fl64 (60 / tempo)))))))"
    by blast
  have lb': "length b = min 88200 (if 0 < rb then nat rb * (nb * nat spb) else nb * nat spb)"
    unfolding lb T lens(1) spb(1) rb length_tile length_replicate ..
  have lm': "length m = min 88200 (if 0 < rm then nat rm * (nm * nat spb) else nm * nat spb)"
    unfolding lm T lens(2) spb(1) rm length_tile length_replicate ..
  have ld': "length d = min 88200 (if 0 < rd then nat rd * (16 * nat spb) else 16 * nat spb)"
    unfolding ld T spb(1) rd length_tile length_replicate ..
  show ?thesis
    unfolding res loop_lengths_def fst_conv option.map prod.case lb' lm' ld' ..
qed

lemma ruins_beat: "fl64 (60 / 120) = 1 / 2"
  by (rule fl64_evalI [where k = "- 1" and m = "4503599627370496"]) simp_all

lemma ruins_beat_samples: "fl64 (1 / 2 * real (22050::nat)) = 11025"
  by (rule fl64_evalI [where k = "13" and m = "6061057848115200"]) simp_all

lemma ruins_cycle4: "fl64 (real (4::nat) * (1 / 2)) = 2"
  by (rule fl64_evalI [where k = "1" and m = "4503599627370496"]) simp_all

lemma ruins_ratio4: "fl64 (4 / 2) = 2"
  by (rule fl64_evalI [where k = "1" and m = "4503599627370496"]) simp_all

lemma ruins_cycle8: "fl64 (real (8::nat) * (1 / 2)) = 4"
  by (rule fl64_evalI [where k = "2" and m = "4503599627370496"]) simp_all

lemma ruins_ratio8: "fl64 (4 / 4) = 1"
  by (rule fl64_evalI [where k = "0" and m = "4503599627370496"]) simp_all

lemma ruins_cycle16: "fl64 (16 * (1 / 2)) = 8"
  by (rule fl64_evalI [where k = "3" and m = "4503599627370496"]) simp_all

lemma ruins_ratio16: "fl64 (4 / 8) = 1 / 2"
  by (rule fl64_evalI [where k = "- 1" and m = "4503599627370496"]) simp_all

lemma ruins_loop_lengths:
  "loop_lengths (fst (generate_famicom_loop famicom_backend True ''ruins'' 4 g)) = Some (88200, 88200, 88200)"
proof -
  have tp: "theme_parameters ''ruins'' = ([110, 110, 98, 98], [220, 262, 294, 330, 0, 330, 294, 262], 120, 0.5)"
    by (simp add: theme_parameters_def)
  have l1: "length [110, 110, 98, 98::real] = 4" by simp
  have l2: "length [220, 262, 294, 330, 0, 330, 294, 262::real] = 8" by simp
  have spb: "py_int (fl64 (fl64 (60 / 120) * real (22050::nat))) = 11025"
    unfolding ruins_beat ruins_beat_samples by (simp add: py_int_def)
  have rb: "py_int (fl64 (4 / fl64 (real (4::nat) * fl64 (60 / 120)))) = 2"
    unfolding ruins_beat ruins_cycle4 ruins_ratio4 by (simp add: py_int_def)
  have rm: "py_int (fl64 (4 / fl64 (real (8::nat) * fl64 (60 / 120)))) = 1"
    unfolding ruins_beat ruins_cycle8 ruins_ratio8 by (simp add: py_int_def)
  have rd: "py_int (fl64 (4 / fl64 (16 * fl64 (60 / 120)))) = 0"
    unfolding ruins_beat ruins_cycle16 ruins_ratio16 by (simp add: py_int_def)
  have "loop_lengths (fst (generate_famicom_loop famicom_backend True ''ruins'' 4 g)) =
        Some (min 88200 (if 0 < (2::int) then nat 2 * (4 * nat 11025) else 4 * nat 11025),
              min 88200 (if 0 < (1::int) then nat 1 * (8 * nat 11025) else 8 * nat 11025),
              min 88200 (if 0 < (0::int) then nat 0 * (16 * nat 11025) else 16 * nat 11025))"
    by (rule loop_lengths_at_22050 [OF tp l1 l2 _ _ spb _ rb rm rd]) simp_all
  then show ?thesis by simp
qed

lemma snowdin_beat: "fl64 (60 / 140) = 7720456504063707 / 18014398509481984"
  by (rule fl64_evalI [where k = "- 2" and m = "7720456504063707"]) simp_all

lemma snowdin_beat_samples: "fl64 (7720456504063707 / 18014398509481984 * real (22050::nat)) = 9450"
  by (rule fl64_evalI [where k = "13" and m = "5195192441241600"]) simp_all

lemma snowdin_cycle4: "fl64 (real (4::nat) * (7720456504063707 / 18014398509481984)) = 7720456504063707 / 4503599627370496"
  by (rule fl64_evalI [where k = "0" and m = "7720456504063707"]) simp_all

lemma snowdin_ratio4: "fl64 (4 / (7720456504063707 / 4503599627370496)) = 5254199565265579 / 2251799813685248"
  by (rule fl64_evalI [where k = "1" and m = "5254199565265579"]) simp_all

lemma snowdin_cycle8: "fl64 (real (8::nat) * (7720456504063707 / 18014398509481984)) = 7720456504063707 / 2251799813685248"
  by (rule fl64_evalI [where k = "1" and m = "7720456504063707"]) simp_all

lemma snowdin_ratio8: "fl64 (4 / (7720456504063707 / 2251799813685248)) = 5254199565265579 / 4503599627370496"
  by (rule fl64_evalI [where k = "0" and m = "5254199565265579"]) simp_all

lemma snowdin_cycle16: "fl64 (16 * (7720456504063707 / 18014398509481984)) = 7720456504063707 / 1125899906842624"
  by (rule fl64_evalI [where k = "2" and m = "7720456504063707"]) simp_all

lemma snowdin_ratio16: "fl64 (4 / (7720456504063707 / 1125899906842624)) = 5254199565265579 / 9007199254740992"
  by (rule fl64_evalI [where k = "- 1" and m = "5254199565265579"]) simp_all

lemma snowdin_loop_lengths:
  "loop_lengths (fst (generate_famicom_loop famicom_backend True ''snowdin'' 4 g)) = Some (75600, 75600, 88200)"
proof -
  have tp: "theme_parameters ''snowdin'' = ([98, 98, 110, 110], [330, 294, 262, 220, 0, 220, 262, 294], 140, 0.25)"
    by (simp add: theme_parameters_def)
  have l1: "length [98, 98, 110, 110::real] = 4" by simp
  have l2: "length [330, 294, 262, 220, 0, 220, 262, 294::real] = 8" by simp
  have spb: "py_int (fl64 (fl64 (60 / 140) * real (22050::nat))) = 9450"
    unfolding snowdin_beat snowdin_beat_samples by (simp add: py_int_def)
  have rb: "py_int (fl64 (4 / fl64 (real (4::nat) * fl64 (60 / 140)))) = 2"
    unfolding snowdin_beat snowdin_cycle4 snowdin_ratio4 by (simp add: py_int_def)
  have rm: "py_int (fl64 (4 / fl64 (real (8::nat) * fl64 (60 / 140)))) = 1"
    unfolding snowdin_beat snowdin_cycle8 snowdin_ratio8 by (simp add: py_int_def)
  have rd: "py_int (fl64 (4 / fl64 (16 * fl64 (60 / 140)))) = 0"
    unfolding snowdin_beat snowdin_cycle16 snowdin_ratio16 by (simp add: py_int_def)
  have "loop_lengths (fst (generate_famicom_loop famicom_backend True ''snowdin'' 4 g)) =
        Some (min 88200 (if 0 < (2::int) then nat 2 * (4 * nat 9450) else 4 * nat 9450),
              min 88200 (if 0 < (1::int) then nat 1 * (8 * nat 9450) else 8 * nat 9450),
              min 88200 (if 0 < (0::int) then nat 0 * (16 * nat 9450) else 16 * nat 9450))"
    by (rule loop_lengths_at_22050 [OF tp l1 l2 _ _ spb _ rb rm rd]) simp_all
  then show ?thesis by simp
qed

lemma waterfall_beat: "fl64 (60 / 100) = 5404319552844595 / 9007199254740992"
  by (rule fl64_evalI [where k = "- 1" and m = "5404319552844595"]) simp_all

lemma waterfall_beat_samples: "fl64 (5404319552844595 / 9007199254740992 * real (22050::nat)) = 13230"
  by (rule fl64_evalI [where k = "13" and m = "7273269417738240"]) simp_all

lemma waterfall_cycle4: "fl64 (real (4::nat) * (5404319552844595 / 9007199254740992)) = 5404319552844595 / 2251799813685248"
  by (rule fl64_evalI [where k = "1" and m = "5404319552844595"]) simp_all

lemma waterfall_ratio4: "fl64 (4 / (5404319552844595 / 2251799813685248)) = 7505999378950827 / 4503599627370496"
  by (rule fl64_evalI [where k = "0" and m = "7505999378950827"]) simp_all

lemma waterfall_cycle8: "fl64 (real (8::nat) * (5404319552844595 / 9007199254740992)) = 5404319552844595 / 1125899906842624"
  by (rule fl64_evalI [where k = "2" and m = "5404319552844595"]) simp_all

lemma waterfall_ratio8: "fl64 (4 / (5404319552844595 / 1125899906842624)) = 7505999378950827 / 9007199254740992"
  by (rule fl64_evalI [where k = "- 1" and m = "7505999378950827"]) simp_all

lemma waterfall_cycle16: "fl64 (16 * (5404319552844595 / 9007199254740992)) = 5404319552844595 / 562949953421312"
  by (rule fl64_evalI [where k = "3" and m = "5404319552844595"]) simp_all

lemma waterfall_ratio16: "fl64 (4 / (5404319552844595 / 562949953421312)) = 7505999378950827 / 18014398509481984"
  by (rule fl64_evalI [where k = "- 2" and m = "7505999378950827"]) simp_all

lemma waterfall_loop_lengths:
  "loop_lengths (fst (generate_famicom_loop famicom_backend True ''waterfall'' 4 g)) = Some (52920, 88200, 88200)"
proof -
  have tp: "theme_parameters ''waterfall'' = ([65, 65, 73, 73], [196, 220, 262, 294, 0, 262, 220, 196], 100, 0.5)"
    by (simp add: theme_parameters_def)
  have l1: "length [65, 65, 73, 73::real] = 4" by simp
  have l2: "length [196, 220, 262, 294, 0, 262, 220, 196::real] = 8" by simp
  have spb: "py_int (fl64 (fl64 (60 / 100) * real (22050::nat))) = 13230"
    unfolding waterfall_beat waterfall_beat_samples by (simp add: py_int_def)
  have rb: "py_int (fl64 (4 / fl64 (real (4::nat) * fl64 (60 / 100)))) = 1"
    unfolding waterfall_beat waterfall_cycle4 waterfall_ratio4 by (simp add: py_int_def)
  have rm: "py_int (fl64 (4 / fl64 (real (8::nat) * fl64 (60 / 100)))) = 0"
    unfolding waterfall_beat waterfall_cycle8 waterfall_ratio8 by (simp add: py_int_def)
  have rd: "py_int (fl64 (4 / fl64 (16 * fl64 (60 / 100)))) = 0"
    unfolding waterfall_beat waterfall_cycle16 waterfall_ratio16 by (simp add: py_int_def)
  have "loop_lengths (fst (generate_famicom_loop famicom_backend True ''waterfall'' 4 g)) =
        Some (min 88200 (if 0 < (1::int) then nat 1 * (4 * nat 13230) else 4 * nat 13230),
              min 88200 (if 0 < (0::int) then nat 0 * (8 * nat 13230) else 8 * nat 13230),
              min 88200 (if 0 < (0::int) then nat 0 * (16 * nat 13230) else 16 * nat 13230))"
    by (rule loop_lengths_at_22050 [OF tp l1 l2 _ _ spb _ rb rm rd]) simp_all
  then show ?thesis by simp
qed

lemma hotland_beat: "fl64 (60 / 160) = 3 / 8"
  by (rule fl64_evalI [where k = "- 2" and m = "6755399441055744"]) simp_all

lemma hotland_beat_samples: "fl64 (3 / 8 * real (22050::nat)) = 33075 / 4"
  by (rule fl64_evalI [where k = "13" and m = "4545793386086400"]) simp_all

lemma hotland_cycle4: "fl64 (real (4::nat) * (3 / 8)) = 3 / 2"
  by (rule fl64_evalI [where k = "0" and m = "6755399441055744"]) simp_all

lemma hotland_ratio4: "fl64 (4 / (3 / 2)) = 6004799503160661 / 2251799813685248"
  by (rule fl64_evalI [where k = "1" and m = "6004799503160661"]) simp_all

lemma hotland_cycle8: "fl64 (real (8::nat) * (3 / 8)) = 3"
  by (rule fl64_evalI [where k = "1" and m = "6755399441055744"]) simp_all

lemma hotland_ratio8: "fl64 (4 / 3) = 6004799503160661 / 4503599627370496"
  by (rule fl64_evalI [where k = "0" and m = "6004799503160661"]) simp_all

lemma hotland_cycle16: "fl64 (16 * (3 / 8)) = 6"
  by (rule fl64_evalI [where k = "2" and m = "6755399441055744"]) simp_all

lemma hotland_ratio16: "fl64 (4 / 6) = 6004799503160661 / 9007199254740992"
  by (rule fl64_evalI [where k = "- 1" and m = "6004799503160661"]) simp_all

lemma hotland_loop_lengths:
  "loop_lengths (fst (generate_famicom_loop famicom_backend True ''hotland'' 4 g)) = Some (66144, 66144, 88200)"
proof -
  have tp: "theme_parameters ''hotland'' = ([82, 82, 92, 92], [330, 311, 294, 262, 0, 294, 311, 330], 160, 0.125)"
    by (simp add: theme_parameters_def)
  have l1: "length [82, 82, 92, 92::real] = 4" by simp
  have l2: "length [330, 311, 294, 262, 0, 294, 311, 330::real] = 8" by simp
  have spb: "py_int (fl64 (fl64 (60 / 160) * real (22050::nat))) = 8268"
    unfolding hotland_beat hotland_beat_samples by (simp add: py_int_def)
  have rb: "py_int (fl64 (4 / fl64 (real (4::nat) * fl64 (60 / 160)))) = 2"
    unfolding hotland_beat hotland_cycle4 hotland_ratio4 by (simp add: py_int_def)
  have rm: "py_int (fl64 (4 / fl64 (real (8::nat) * fl64 (60 / 160)))) = 1"
    unfolding hotland_beat hotland_cycle8 hotland_ratio8 by (simp add: py_int_def)
  have rd: "py_int (fl64 (4 / fl64 (16 * fl64 (60 / 160)))) = 0"
    unfolding hotland_beat hotland_cycle16 hotland_ratio16 by (simp add: py_int_def)
  have "loop_lengths (fst (generate_famicom_loop famicom_backend True ''hotland'' 4 g)) =
        Some (min 88200 (if 0 < (2::int) then nat 2 * (4 * nat 8268) else 4 * nat 8268),
              min 88200 (if 0 < (1::int) then nat 1 * (8 * nat 8268) else 8 * nat 8268),
              min 88200 (if 0 < (0::int) then nat 0 * (16 * nat 8268) else 16 * nat 8268))"
    by (rule loop_lengths_at_22050 [OF tp l1 l2 _ _ spb _ rb rm rd]) simp_all
  then show ?thesis by simp
qed

lemma core_beat: "fl64 (60 / 180) = 6004799503160661 / 18014398509481984"
  by (rule fl64_evalI [where k = "- 2" and m = "6004799503160661"]) simp_all

lemma core_beat_samples: "fl64 (6004799503160661 / 18014398509481984 * real (22050::nat)) = 7350"
  by (rule fl64_evalI [where k = "12" and m = "8081410464153600"]) simp_all

lemma core_cycle4: "fl64 (real (4::nat) * (6004799503160661 / 18014398509481984)) = 6004799503160661 / 4503599627370496"
  by (rule fl64_evalI [where k = "0" and m = "6004799503160661"]) simp_all

lemma core_ratio4: "fl64 (4 / (6004799503160661 / 4503599627370496)) = 3"
  by (rule fl64_evalI [where k = "1" and m = "6755399441055744"]) simp_all

lemma core_cycle8: "fl64 (real (8::nat) * (6004799503160661 / 18014398509481984)) = 6004799503160661 / 2251799813685248"
  by (rule fl64_evalI [where k = "1" and m = "6004799503160661"]) simp_all

lemma core_ratio8: "fl64 (4 / (6004799503160661 / 2251799813685248)) = 3 / 2"
  by (rule fl64_evalI [where k = "0" and m = "6755399441055744"]) simp_all

lemma core_cycle16: "fl64 (16 * (6004799503160661 / 18014398509481984)) = 6004799503160661 / 1125899906842624"
  by (rule fl64_evalI [where k = "2" and m = "6004799503160661"]) simp_all

lemma core_ratio16: "fl64 (4 / (6004799503160661 / 1125899906842624)) = 3 / 4"
  by (rule fl64_evalI [where k = "- 1" and m = "6755399441055744"]) simp_all

lemma core_loop_lengths:
  "loop_lengths (fst (generate_famicom_loop famicom_backend True ''core'' 4 g)) = Some (88200, 58800, 88200)"
proof -
  have tp: "theme_parameters ''core'' = ([110, 98, 110, 98], [349, 330, 311, 294, 0, 294, 311, 330], 180, 0.75)"
    by (simp add: theme_parameters_def)
  have l1: "length [110, 98, 110, 98::real] = 4" by simp
  have l2: "length [349, 330, 311, 294, 0, 294, 311, 330::real] = 8" by simp
  have spb: "py_int (fl64 (fl64 (60 / 180) * real (22050::nat))) = 7350"
    unfolding core_beat core_beat_samples by (simp add: py_int_def)
  have rb: "py_int (fl64 (4 / fl64 (real (4::nat) * fl64 (60 / 180)))) = 3"
    unfolding core_beat core_cycle4 core_ratio4 by (simp add: py_int_def)
  have rm: "py_int (fl64 (4 / fl64 (real (8::nat) * fl64 (60 / 180)))) = 1"
    unfolding core_beat core_cycle8 core_ratio8 by (simp add: py_int_def)
  have rd: "py_int (fl64 (4 / fl64 (16 * fl64 (60 / 180)))) = 0"
    unfolding core_beat core_cycle16 core_ratio16 by (simp add: py_int_def)
  have "loop_lengths (fst (generate_famicom_loop famicom_backend True ''core'' 4 g)) =
        Some (min 88200 (if 0 < (3::int) then nat 3 * (4 * nat 7350) else 4 * nat 7350),
              min 88200 (if 0 < (1::int) then nat 1 * (8 * nat 7350) else 8 * nat 7350),
              min 88200 (if 0 < (0::int) then nat 0 * (16 * nat 7350) else 16 * nat 7350))"
    by (rule loop_lengths_at_22050 [OF tp l1 l2 _ _ spb _ rb rm rd]) simp_all
  then show ?thesis by simp
qed

lemma last_beat: "fl64 (60 / 200) = 5404319552844595 / 18014398509481984"
  by (rule fl64_evalI [where k = "- 2" and m = "5404319552844595"]) simp_all

lemma last_beat_samples: "fl64 (5404319552844595 / 18014398509481984 * real (22050::nat)) = 6615"
  by (rule fl64_evalI [where k = "12" and m = "7273269417738240"]) simp_all

lemma last_cycle4: "fl64 (real (4::nat) * (5404319552844595 / 18014398509481984)) = 5404319552844595 / 4503599627370496"
  by (rule fl64_evalI [where k = "0" and m = "5404319552844595"]) simp_all

lemma last_ratio4: "fl64 (4 / (5404319552844595 / 4503599627370496)) = 7505999378950827 / 2251799813685248"
  by (rule fl64_evalI [where k = "1" and m = "7505999378950827"]) simp_all

lemma last_cycle8: "fl64 (real (8::nat) * (5404319552844595 / 18014398509481984)) = 5404319552844595 / 2251799813685248"
  by (rule fl64_evalI [where k = "1" and m = "5404319552844595"]) simp_all

lemma last_ratio8: "fl64 (4 / (5404319552844595 / 2251799813685248)) = 7505999378950827 / 4503599627370496"
  by (rule fl64_evalI [where k = "0" and m = "7505999378950827"]) simp_all

lemma last_cycle16: "fl64 (16 * (5404319552844595 / 18014398509481984)) = 5404319552844595 / 1125899906842624"
  by (rule fl64_evalI [where k = "2" and m = "5404319552844595"]) simp_all

lemma last_ratio16: "fl64 (4 / (5404319552844595 / 1125899906842624)) = 7505999378950827 / 9007199254740992"
  by (rule fl64_evalI [where k = "- 1" and m = "7505999378950827"]) simp_all

lemma last_loop_lengths:
  "loop_lengths (fst (generate_famicom_loop famicom_backend True ''last'' 4 g)) = Some (79380, 52920, 88200)"
proof -
  have tp: "theme_parameters ''last'' = ([65, 73, 65, 73], [220, 262, 330, 392, 0, 392, 330, 262], 200, 0.5)"
    by (simp add: theme_parameters_def)
  have l1: "length [65, 73, 65, 73::real] = 4" by simp
  have l2: "length [220, 262, 330, 392, 0, 392, 330, 262::real] = 8" by simp
  have spb: "py_int (fl64 (fl64 (60 / 200) * real (22050::nat))) = 6615"
    unfolding last_beat last_beat_samples by (simp add: py_int_def)
  have rb: "py_int (fl64 (4 / fl64 (real (4::nat) * fl64 (60 / 200)))) = 3"
    unfolding last_beat last_cycle4 last_ratio4 by (simp add: py_int_def)
  have rm: "py_int (fl64 (4 / fl64 (real (8::nat) * fl64 (60 / 200)))) = 1"
    unfolding last_beat last_cycle8 last_ratio8 by (simp add: py_int_def)
  have rd: "py_int (fl64 (4 / fl64 (16 * fl64 (60 / 200)))) = 0"
    unfolding last_beat last_cycle16 last_ratio16 by (simp add: py_int_def)
  have "loop_lengths (fst (generate_famicom_loop famicom_backend True ''last'' 4 g)) =
        Some (min 88200 (if 0 < (3::int) then nat 3 * (4 * nat 6615) else 4 * nat 6615),
              min 88200 (if 0 < (1::int) then nat 1 * (8 * nat 6615) else 8 * nat 6615),
              min 88200 (if 0 < (0::int) then nat 0 * (16 * nat 6615) else 16 * nat 6615))"
    by (rule loop_lengths_at_22050 [OF tp l1 l2 _ _ spb _ rb rm rd]) simp_all
  then show ?thesis by simp
qed

text \<open>
  C1. On the mixer at 22050 Hz the target length of a 4-second loop is 88200 samples, and the
  generation succeeds for each of the six themes, whatever the random generator holds. Only
  \<open>ruins\<close> gets three buffers of the target length. The number of repeats is truncated, so a
  tiled cycle can end before the target and the trim leaves it short: the bass and melody of
  \<open>snowdin\<close> have 75600 samples against 88200 for its percussion, and \<open>waterfall\<close>,
  \<open>hotland\<close>, \<open>core\<close> and \<open>last\<close> have a short buffer as well.
\<close>

theorem famicom_loop_lengths:
  "py_int (fl64 (4 * real (22050::nat))) = 88200 \<and>
   loop_lengths (fst (generate_famicom_loop famicom_backend True ''ruins'' 4 g)) = Some (88200, 88200, 88200) \<and>
   loop_lengths (fst (generate_famicom_loop famicom_backend True ''snowdin'' 4 g)) = Some (75600, 75600, 88200) \<and>
   loop_lengths (fst (generate_famicom_loop famicom_backend True ''waterfall'' 4 g)) = Some (52920, 88200, 88200) \<and>
   loop_lengths (fst (generate_famicom_loop famicom_backend True ''hotland'' 4 g)) = Some (66144, 66144, 88200) \<and>
   loop_lengths (fst (generate_famicom_loop famicom_backend True ''core'' 4 g)) = Some (88200, 58800, 88200) \<and>
   loop_lengths (fst (generate_famicom_loop famicom_backend True ''last'' 4 g)) = Some (79380, 52920, 88200)"
proof -
  have "py_int (fl64 (4 * real (22050::nat))) = 88200" by (rule target_count_at_22050)
  then show ?thesis
    by (simp only: ruins_loop_lengths snowdin_loop_lengths waterfall_loop_lengths
        hotland_loop_lengths core_loop_lengths last_loop_lengths simp_thms)
qed

section \<open>Theme selection and routes\<close>

lemma start_loops_current_level: "current_level (start_loops be lps s) = current_level s"
  by (simp add: start_loops_def split: prod.splits bool.splits)

lemma start_loops_route: "route (start_loops be lps s) = route s"
  by (simp add: start_loops_def split: prod.splits bool.splits)

lemma load_level_disabled: "\<not> mixer_available s \<Longrightarrow> load_level be level_name s = s"
  by (simp add: load_level_def)

lemma load_level_same: "current_level s = Some level_name \<Longrightarrow> load_level be level_name s = s"
  by (simp add: load_level_def)

lemma load_level_current_level:
  "mixer_available s \<Longrightarrow> current_level (load_level be level_name s) = Some level_name"
  by (auto simp: load_level_def Let_def start_loops_current_level split: option.splits prod.splits)

lemma load_level_route: "route (load_level be level_name s) = route s"
  by (auto simp: load_level_def Let_def start_loops_route split: option.splits prod.splits)

lemma set_route_only_route: "set_route be r s = s\<lparr>route := r\<rparr>"
  by (cases "mixer_available s") (auto simp: set_route_def Let_def load_level_same load_level_disabled)

lemma loop_lengths_Some:
  "loop_lengths (fst r) = Some ls \<Longrightarrow> \<exists>lps g'. r = (Some lps, g')"
  by (cases r) (auto simp: loop_lengths_def)

lemma play_all_ok:
  assumes "\<forall>ch. \<not> play_raises be ch"
  shows "play_all be [c0, c1, c2] [(0, b), (1, m), (2, d)] lg =
           (lg @ [Play c0 b, Play c1 m, Play c2 d], True)"
  using assms by simp

lemma load_level_generated:
  assumes avail: "mixer_available s" and other: "current_level s \<noteq> Some level_name"
    and fresh: "proc_sounds s level_name = None"
    and gen: "generate_famicom_loop be True level_name 4 (np_random s) = (Some (b, m, d), g')"
    and chans: "proc_channels s = [c0, c1, c2]"
    and plays: "\<forall>ch. \<not> play_raises be ch"
  shows "load_level be level_name s =
           s\<lparr>current_level := Some level_name,
             mixer_log := mixer_log s @ [Stop c0, Stop c1, Stop c2, Play c0 b, Play c1 m, Play c2 d],
             np_random := g',
             proc_sounds := (proc_sounds s)(level_name \<mapsto> (b, m, d)),
             proc_target_volumes := [0.5, 0.5, 0.5],
             proc_current_volumes := [0, 0, 0]\<rparr>"
  using assms by (simp add: load_level_def Let_def start_loops_def)

text \<open>
  C9. A theme switch that succeeds (the manager is enabled before, the theme differs from the
  current one, and the manager is still enabled after, so that generation and playback both
  went through) leaves the three target volumes at 0.5 and the three current volumes at 0.
\<close>

theorem switch_resets_volumes:
  "mixer_available s \<Longrightarrow> current_level s \<noteq> Some level_name \<Longrightarrow>
   mixer_available (load_level be level_name s) \<Longrightarrow>
   proc_target_volumes (load_level be level_name s) = [0.5, 0.5, 0.5] \<and>
   proc_current_volumes (load_level be level_name s) = [0, 0, 0]"
  by (auto simp: load_level_def Let_def start_loops_def split: option.splits prod.splits bool.splits if_splits)

theorem switch_resets_volumes_witness:
  "mixer_available ((sound_manager_init True (\<lambda>_. 0))
      \<lparr>current_level := Some ''ruins'', proc_current_volumes := [0.3, 0.3, 0.3]\<rparr>) \<and>
   current_level ((sound_manager_init True (\<lambda>_. 0))
      \<lparr>current_level := Some ''ruins'', proc_current_volumes := [0.3, 0.3, 0.3]\<rparr>) \<noteq> Some ''last'' \<and>
   mixer_available (load_level famicom_backend ''last'' ((sound_manager_init True (\<lambda>_. 0))
      \<lparr>current_level := Some ''ruins'', proc_current_volumes := [0.3, 0.3, 0.3]\<rparr>)) \<and>
   proc_target_volumes (load_level famicom_backend ''last'' ((sound_manager_init True (\<lambda>_. 0))
      \<lparr>current_level := Some ''ruins'', proc_current_volumes := [0.3, 0.3, 0.3]\<rparr>)) = [0.5, 0.5, 0.5] \<and>
   proc_current_volumes (load_level famicom_backend ''last'' ((sound_manager_init True (\<lambda>_. 0))
      \<lparr>current_level := Some ''ruins'', proc_current_volumes := [0.3, 0.3, 0.3]\<rparr>)) = [0, 0, 0]"
proof -
  let ?s = "(sound_manager_init True (\<lambda>_. 0))
      \<lparr>current_level := Some ''ruins'', proc_current_volumes := [0.3, 0.3, 0.3]\<rparr>"
  have h1: "mixer_available ?s" by (simp add: sound_manager_init_def)
  have h2: "current_level ?s \<noteq> Some ''last''" by simp
  obtain lps g' where "generate_famicom_loop famicom_backend True ''last'' 4 (np_random ?s) = (Some lps, g')"
    using loop_lengths_Some [OF last_loop_lengths] by blast
  then obtain b m d where gen:
    "generate_famicom_loop famicom_backend True ''last'' 4 (np_random ?s) = (Some (b, m, d), g')"
    by (cases lps) auto
  have "load_level famicom_backend ''last'' ?s =
          ?s\<lparr>current_level := Some ''last'',
             mixer_log := mixer_log ?s @ [Stop 1, Stop 2, Stop 3, Play 1 b, Play 2 m, Play 3 d],
             np_random := g',
             proc_sounds := (proc_sounds ?s)(''last'' \<mapsto> (b, m, d)),
             proc_target_volumes := [0.5, 0.5, 0.5],
             proc_current_volumes := [0, 0, 0]\<rparr>"
    by (rule load_level_generated [OF h1 h2 _ gen])
       (simp_all add: sound_manager_init_def famicom_backend_def)
  then have h3: "mixer_available (load_level famicom_backend ''last'' ?s)"
    using h1 by simp
  show ?thesis
    using h1 h2 h3 switch_resets_volumes [OF h1 h2 h3] by blast
qed

text \<open>
  C2. With the terminal theme \<open>last\<close> selected and playing on the route \<open>pacifist\<close>, changing
  the route to \<open>genocide\<close> only stores the new tag. The \<open>load_level\<close> that \<open>set_route\<close>
  calls returns at its same-theme test, so no channel is stopped or started: the log of mixer
  calls is unchanged.
\<close>

theorem set_route_no_reselect:
  "mixer_available last_selected \<and>
   current_level last_selected = Some ''last'' \<and>
   route last_selected = ''pacifist'' \<and>
   set_route famicom_backend ''genocide'' last_selected = last_selected\<lparr>route := ''genocide''\<rparr> \<and>
   mixer_log (set_route famicom_backend ''genocide'' last_selected) = mixer_log last_selected"
proof -
  let ?s = "sound_manager_init True (\<lambda>_. 0)"
  have h1: "mixer_available ?s" by (simp add: sound_manager_init_def)
  have h2: "current_level ?s \<noteq> Some ''last''" by (simp add: sound_manager_init_def)
  obtain lps g' where "generate_famicom_loop famicom_backend True ''last'' 4 (np_random ?s) = (Some lps, g')"
    using loop_lengths_Some [OF last_loop_lengths] by blast
  then obtain b m d where gen:
    "generate_famicom_loop famicom_backend True ''last'' 4 (np_random ?s) = (Some (b, m, d), g')"
    by (cases lps) auto
  have ll: "last_selected =
          ?s\<lparr>current_level := Some ''last'',
             mixer_log := mixer_log ?s @ [Stop 1, Stop 2, Stop 3, Play 1 b, Play 2 m, Play 3 d],
             np_random := g',
             proc_sounds := (proc_sounds ?s)(''last'' \<mapsto> (b, m, d)),
             proc_target_volumes := [0.5, 0.5, 0.5],
             proc_current_volumes := [0, 0, 0]\<rparr>"
    unfolding last_selected_def
    by (rule load_level_generated [OF h1 h2 _ gen])
       (simp_all add: sound_manager_init_def famicom_backend_def)
  have a: "mixer_available last_selected" using h1 by (simp add: ll)
  have c: "current_level last_selected = Some ''last''" by (simp add: ll)
  have r: "route last_selected = ''pacifist''" by (simp add: ll sound_manager_init_def)
  have sr: "set_route famicom_backend ''genocide'' last_selected = last_selected\<lparr>route := ''genocide''\<rparr>"
    by (rule set_route_only_route)
  show ?thesis using a c r sr by simp
qed

text \<open>
  C7. Selecting a theme a second time, right after selecting it, changes nothing: the manager
  with its cache, its volumes and its current theme, the random generator and the log of mixer
  calls are those the first call left, whatever the backend does at either call.
\<close>

theorem load_level_twice:
  "load_level be2 level_name (load_level be1 level_name s) = load_level be1 level_name s"
proof (cases "mixer_available s")
  case True
  then show ?thesis by (simp add: load_level_current_level load_level_same)
next
  case False
  then show ?thesis by (simp add: load_level_disabled)
qed

lemma update_disabled: "\<not> mixer_available s \<Longrightarrow> update player_speed near s = Inr s"
  by (simp add: update_def)

lemma step_disabled:
  assumes "\<not> mixer_available s"
  shows "\<exists>r. step be c s = Inr (s\<lparr>route := r\<rparr>)"
proof (cases c)
  case (SelectTheme x)
  then have "step be c s = Inr (s\<lparr>route := route s\<rparr>)"
    using assms by (simp add: load_level_disabled)
  then show ?thesis by blast
next
  case (SetRoute r)
  then have "step be c s = Inr (s\<lparr>route := r\<rparr>)" by (simp add: set_route_only_route)
  then show ?thesis by blast
next
  case (Frame player_speed near)
  then have "step be c s = Inr (s\<lparr>route := route s\<rparr>)"
    using assms by (simp add: update_disabled)
  then show ?thesis by blast
qed

lemma run_disabled:
  "\<not> mixer_available s \<Longrightarrow> \<exists>r. run cs s = Inr (s\<lparr>route := r\<rparr>)"
proof (induction cs arbitrary: s)
  case Nil
  have "run [] s = Inr (s\<lparr>route := route s\<rparr>)" by simp
  then show ?case by blast
next
  case (Cons bc cs)
  obtain be c where bc: "bc = (be, c)" by (cases bc)
  from step_disabled [OF Cons.prems] obtain r1 where r1: "step be c s = Inr (s\<lparr>route := r1\<rparr>)"
    by blast
  have "\<not> mixer_available (s\<lparr>route := r1\<rparr>)" using Cons.prems by simp
  from Cons.IH [OF this] obtain r2
    where "run cs (s\<lparr>route := r1\<rparr>) = Inr (s\<lparr>route := r1, route := r2\<rparr>)"
    by blast
  then have "run (bc # cs) s = Inr (s\<lparr>route := r2\<rparr>)" using bc r1 by simp
  then show ?case by blast
qed

text \<open>
  C8. Once \<open>mixer_available\<close> is false it stays false: any sequence of theme selections,
  route changes and frame updates, against any backends, ends without an exception in a state
  that is still disabled and differs from the starting one in the route tag at most. So no
  loop is generated or cached, no random number is drawn and no call reaches the mixer.
\<close>

theorem disabled_forever:
  "\<not> mixer_available s \<Longrightarrow>
   \<exists>s'. run cs s = Inr s' \<and> \<not> mixer_available s' \<and> s' = s\<lparr>route := route s'\<rparr>"
proof -
  assume d: "\<not> mixer_available s"
  from run_disabled [OF d] obtain r where r: "run cs s = Inr (s\<lparr>route := r\<rparr>)" by blast
  show ?thesis using r d by simp
qed

theorem disabled_forever_witness:
  "\<not> mixer_available (sound_manager_init False (\<lambda>_. 0)) \<and>
   (\<exists>s'. run [(famicom_backend, SelectTheme ''ruins''), (famicom_backend, SetRoute ''genocide''),
              (famicom_backend, Frame 5 True)] (sound_manager_init False (\<lambda>_. 0)) = Inr s' \<and>
         \<not> mixer_available s' \<and>
         s' = (sound_manager_init False (\<lambda>_. 0))\<lparr>route := route s'\<rparr>)"
proof -
  have d: "\<not> mixer_available (sound_manager_init False (\<lambda>_. 0))"
    by (simp add: sound_manager_init_def)
  show ?thesis
    using d disabled_forever [OF d,
      of "[(famicom_backend, SelectTheme ''ruins''), (famicom_backend, SetRoute ''genocide''),
           (famicom_backend, Frame 5 True)]"]
    by blast
qed

text \<open>
  C10. \<open>load_level\<close> is not atomic on error. When the manager is enabled, the requested theme
  is not the current one and not cached, and the generation returns no loops, the call leaves
  the failed theme recorded as the current theme, the stop calls for the channels already
  issued, the cache as it was, and the manager disabled.
\<close>

theorem load_level_not_atomic:
  "mixer_available s \<Longrightarrow> current_level s \<noteq> Some level_name \<Longrightarrow>
   proc_sounds s level_name = None \<Longrightarrow>
   fst (generate_famicom_loop be True level_name 4 (np_random s)) = None \<Longrightarrow>
   current_level (load_level be level_name s) = Some level_name \<and>
   \<not> mixer_available (load_level be level_name s) \<and>
   mixer_log (load_level be level_name s) = mixer_log s @ map Stop (proc_channels s) \<and>
   proc_sounds (load_level be level_name s) = proc_sounds s"
  by (auto simp: load_level_def Let_def split: option.splits prod.splits)

theorem load_level_not_atomic_witness:
  "mixer_available (sound_manager_init True (\<lambda>_. 0)) \<and>
   current_level (sound_manager_init True (\<lambda>_. 0)) \<noteq> Some ''ruins'' \<and>
   proc_sounds (sound_manager_init True (\<lambda>_. 0)) ''ruins'' = None \<and>
   fst (generate_famicom_loop \<lparr>mixer_init = None, play_raises = (\<lambda>_. False)\<rparr> True ''ruins'' 4
          (np_random (sound_manager_init True (\<lambda>_. 0)))) = None \<and>
   current_level (load_level \<lparr>mixer_init = None, play_raises = (\<lambda>_. False)\<rparr> ''ruins''
      (sound_manager_init True (\<lambda>_. 0))) = Some ''ruins'' \<and>
   \<not> mixer_available (load_level \<lparr>mixer_init = None, play_raises = (\<lambda>_. False)\<rparr> ''ruins''
      (sound_manager_init True (\<lambda>_. 0))) \<and>
   mixer_log (load_level \<lparr>mixer_init = None, play_raises = (\<lambda>_. False)\<rparr> ''ruins''
      (sound_manager_init True (\<lambda>_. 0))) = [Stop 1, Stop 2, Stop 3]"
proof -
  let ?s = "sound_manager_init True (\<lambda>_. 0)"
  let ?be = "\<lparr>mixer_init = None, play_raises = (\<lambda>_. False)\<rparr>"
  have h1: "mixer_available ?s" by (simp add: sound_manager_init_def)
  have h2: "current_level ?s \<noteq> Some ''ruins''" by (simp add: sound_manager_init_def)
  have h3: "proc_sounds ?s ''ruins'' = None" by (simp add: sound_manager_init_def)
  have h4: "fst (generate_famicom_loop ?be True ''ruins'' 4 (np_random ?s)) = None"
    by (simp add: generate_famicom_loop_def theme_parameters_def)
  have h5: "mixer_log ?s @ map Stop (proc_channels ?s) = [Stop 1, Stop 2, Stop 3]"
    by (simp add: sound_manager_init_def)
  show ?thesis
    using h1 h2 h3 h4 h5 load_level_not_atomic [OF h1 h2 h3 h4] by simp
qed


section \<open>The dynamic mixer\<close>

lemma smooth_channels_three:
  assumes "proc_current_volumes s = [a, b, c]"
  shows "\<exists>s'. smooth_channels [0..<3] s = Inr s' \<and>
              proc_current_volumes s' =
                [a + (target_volume s - a) * 0.1, b + (target_volume s - b) * 0.1,
                 c + (target_volume s - c) * 0.1] \<and>
              target_volume s' = target_volume s \<and>
              mixer_available s' = mixer_available s"
proof -
  have "[0..<3] = [0, 1, 2]" by (simp add: upt_rec)
  then show ?thesis using assms by (simp add: Let_def)
qed

lemma smooth_step_algebra:
  fixes V c :: real
  shows "V - (V - (c + (V - c) * 0.1)) * (9 / 10) ^ n = V - (V - c) * (9 / 10) ^ Suc n"
proof -
  have "V - (c + (V - c) * 0.1) = (V - c) * (9 / 10)" by (simp add: field_simps)
  then show ?thesis by (simp only: power_Suc mult.assoc)
qed

lemma smooth_frames_from:
  assumes "proc_current_volumes s = [c, c, c]"
  shows "\<exists>s'. smooth_frames n s = Inr s' \<and>
              proc_current_volumes s' =
                [target_volume s - (target_volume s - c) * (9 / 10) ^ n,
                 target_volume s - (target_volume s - c) * (9 / 10) ^ n,
                 target_volume s - (target_volume s - c) * (9 / 10) ^ n]"
  using assms
proof (induction n arbitrary: s c)
  case 0
  then show ?case by simp
next
  case (Suc n)
  let ?V = "target_volume s"
  from smooth_channels_three [OF Suc.prems] obtain s1 where s1:
    "smooth_channels [0..<3] s = Inr s1"
    "proc_current_volumes s1 = [c + (?V - c) * 0.1, c + (?V - c) * 0.1, c + (?V - c) * 0.1]"
    "target_volume s1 = ?V" by blast
  from Suc.IH [OF s1(2)] obtain s' where s':
    "smooth_frames n s1 = Inr s'"
    "proc_current_volumes s' =
       [?V - (?V - (c + (?V - c) * 0.1)) * (9 / 10) ^ n,
        ?V - (?V - (c + (?V - c) * 0.1)) * (9 / 10) ^ n,
        ?V - (?V - (c + (?V - c) * 0.1)) * (9 / 10) ^ n]"
    unfolding s1(3) by blast
  show ?case using s1(1) s' unfolding smooth_step_algebra by simp
qed

lemma update_frame:
  assumes "mixer_available s" and "proc_current_volumes s = [a, b, c]"
  shows "\<exists>s'. update player_speed near s = Inr s' \<and>
              proc_current_volumes s' =
                [a + (base_vol player_speed near - a) * 0.1,
                 b + (base_vol player_speed near - b) * 0.1,
                 c + (base_vol player_speed near - c) * 0.1] \<and>
              target_volume s' = base_vol player_speed near \<and>
              mixer_available s'"
proof -
  let ?s = "s\<lparr>speed := player_speed, enemy_near := near, target_volume := base_vol player_speed near\<rparr>"
  have "proc_current_volumes ?s = [a, b, c]" using assms(2) by simp
  from smooth_channels_three [OF this] show ?thesis
    using assms(1) by (simp add: update_def)
qed

lemma frames_from:
  assumes "mixer_available s" and "proc_current_volumes s = [c, c, c]"
  shows "\<exists>s'. run (replicate n (be, Frame player_speed near)) s = Inr s' \<and>
              proc_current_volumes s' =
                [base_vol player_speed near - (base_vol player_speed near - c) * (9 / 10) ^ n,
                 base_vol player_speed near - (base_vol player_speed near - c) * (9 / 10) ^ n,
                 base_vol player_speed near - (base_vol player_speed near - c) * (9 / 10) ^ n]"
  using assms
proof (induction n arbitrary: s c)
  case 0
  then show ?case by simp
next
  case (Suc n)
  let ?V = "base_vol player_speed near"
  from update_frame [OF Suc.prems] obtain s1 where s1:
    "update player_speed near s = Inr s1"
    "proc_current_volumes s1 = [c + (?V - c) * 0.1, c + (?V - c) * 0.1, c + (?V - c) * 0.1]"
    "mixer_available s1" by blast
  from Suc.IH [OF s1(3) s1(2)] obtain s' where s':
    "run (replicate n (be, Frame player_speed near)) s1 = Inr s'"
    "proc_current_volumes s' =
       [?V - (?V - (c + (?V - c) * 0.1)) * (9 / 10) ^ n,
        ?V - (?V - (c + (?V - c) * 0.1)) * (9 / 10) ^ n,
        ?V - (?V - (c + (?V - c) * 0.1)) * (9 / 10) ^ n]"
    by blast
  show ?case using s1(1) s' unfolding smooth_step_algebra by simp
qed

text \<open>
  C4. On an enabled manager (with its three current volumes in place) a frame update returns
  with the target volume \<open>0.3 + 0.4 * min(1, speed / 5)\<close>, halved when an enemy is near: 0.7 at
  speed 5 with no enemy near, 0.35 at speed 5 with an enemy near, 0.3 at speed 0 with no enemy
  near.
\<close>

theorem update_target_volume:
  assumes "mixer_available s" and "length (proc_current_volumes s) = 3"
  shows "(\<exists>s'. update player_speed near s = Inr s' \<and>
               target_volume s' =
                 (0.3 + 0.4 * min 1 (player_speed / 5)) * (if near then 0.5 else 1)) \<and>
         (\<exists>s'. update 5 False s = Inr s' \<and> target_volume s' = 0.7) \<and>
         (\<exists>s'. update 5 True s = Inr s' \<and> target_volume s' = 0.35) \<and>
         (\<exists>s'. update 0 False s = Inr s' \<and> target_volume s' = 0.3)"
proof -
  obtain a b c where abc: "proc_current_volumes s = [a, b, c]"
    using assms(2) by (auto simp: length_Suc_conv numeral_3_eq_3)
  have f: "base_vol player_speed near =
             (0.3 + 0.4 * min 1 (player_speed / 5)) * (if near then 0.5 else 1)"
    by (simp add: base_vol_def Let_def)
  have v1: "base_vol 5 False = 0.7" by (simp add: base_vol_def)
  have v2: "base_vol 5 True = 0.35" by (simp add: base_vol_def)
  have v3: "base_vol 0 False = 0.3" by (simp add: base_vol_def)
  show ?thesis
    using update_frame [OF assms(1) abc, of player_speed near]
      update_frame [OF assms(1) abc, of 5 False] update_frame [OF assms(1) abc, of 5 True]
      update_frame [OF assms(1) abc, of 0 False]
    unfolding f v1 v2 v3 by blast
qed

theorem update_target_volume_witness:
  "mixer_available (sound_manager_init True (\<lambda>_. 0)) \<and>
   length (proc_current_volumes (sound_manager_init True (\<lambda>_. 0))) = 3 \<and>
   (\<exists>s'. update 2 True (sound_manager_init True (\<lambda>_. 0)) = Inr s' \<and>
         target_volume s' = (0.3 + 0.4 * min 1 (2 / 5)) * (if True then 0.5 else 1)) \<and>
   (\<exists>s'. update 5 False (sound_manager_init True (\<lambda>_. 0)) = Inr s' \<and> target_volume s' = 0.7) \<and>
   (\<exists>s'. update 5 True (sound_manager_init True (\<lambda>_. 0)) = Inr s' \<and> target_volume s' = 0.35) \<and>
   (\<exists>s'. update 0 False (sound_manager_init True (\<lambda>_. 0)) = Inr s' \<and> target_volume s' = 0.3)"
proof -
  have h1: "mixer_available (sound_manager_init True (\<lambda>_. 0))"
    by (simp add: sound_manager_init_def)
  have h2: "length (proc_current_volumes (sound_manager_init True (\<lambda>_. 0))) = 3"
    by (simp add: sound_manager_init_def)
  show ?thesis
    using h1 h2 update_target_volume [OF h1 h2, of 2 True] by blast
qed

text \<open>
  C5. Starting from three current volumes of 0, \<open>n\<close> runs of the smoothing step
  \<open>current += (target - current) * 0.1\<close> with the target held at \<open>V\<close> leave each current
  volume at \<open>V * (1 - 0.9 ^ n)\<close>, over exact arithmetic. This holds for the smoothing loop
  with any stored target, and for \<open>n\<close> frame updates of an enabled manager with the same
  speed and enemy flag, where \<open>V\<close> is the target those inputs give.
\<close>

theorem smoothing_closed_form:
  assumes "proc_current_volumes s = [0, 0, 0]"
  shows "(\<exists>s'. smooth_frames n s = Inr s' \<and>
               proc_current_volumes s' =
                 [target_volume s * (1 - 0.9 ^ n), target_volume s * (1 - 0.9 ^ n),
                  target_volume s * (1 - 0.9 ^ n)]) \<and>
         (mixer_available s \<longrightarrow>
            (\<exists>s'. run (replicate n (be, Frame player_speed near)) s = Inr s' \<and>
                  proc_current_volumes s' =
                    [base_vol player_speed near * (1 - 0.9 ^ n),
                     base_vol player_speed near * (1 - 0.9 ^ n),
                     base_vol player_speed near * (1 - 0.9 ^ n)]))"
proof -
  have e: "v - (v - 0) * (9 / 10) ^ n = v * (1 - 0.9 ^ n)" for v :: real
    by (simp add: algebra_simps)
  show ?thesis
    using smooth_frames_from [OF assms, of n]
      frames_from [OF _ assms, of n be player_speed near]
    unfolding e by blast
qed

theorem smoothing_closed_form_witness:
  "proc_current_volumes (sound_manager_init True (\<lambda>_. 0)) = [0, 0, 0] \<and>
   (\<exists>s'. smooth_frames 2 (sound_manager_init True (\<lambda>_. 0)) = Inr s' \<and>
         proc_current_volumes s' =
           [target_volume (sound_manager_init True (\<lambda>_. 0)) * (1 - 0.9 ^ 2),
            target_volume (sound_manager_init True (\<lambda>_. 0)) * (1 - 0.9 ^ 2),
            target_volume (sound_manager_init True (\<lambda>_. 0)) * (1 - 0.9 ^ 2)]) \<and>
   mixer_available (sound_manager_init True (\<lambda>_. 0)) \<and>
   (\<exists>s'. run (replicate 2 (famicom_backend, Frame 5 False)) (sound_manager_init True (\<lambda>_. 0)) = Inr s' \<and>
         proc_current_volumes s' =
           [base_vol 5 False * (1 - 0.9 ^ 2), base_vol 5 False * (1 - 0.9 ^ 2),
            base_vol 5 False * (1 - 0.9 ^ 2)])"
proof -
  have h1: "proc_current_volumes (sound_manager_init True (\<lambda>_. 0)) = [0, 0, 0]"
    by (simp add: sound_manager_init_def)
  have h2: "mixer_available (sound_manager_init True (\<lambda>_. 0))"
    by (simp add: sound_manager_init_def)
  show ?thesis
    using h1 h2 smoothing_closed_form [OF h1, of 2 famicom_backend 5 False] by blast
qed

section \<open>The uncaught IndexError cannot arise\<close>

text \<open>
  Every assignment to \<open>proc_current_volumes\<close> stores three values, so a run of the manager
  that starts at the constructor never reaches the IndexError of the smoothing loop.
\<close>

lemma load_level_volumes_length:
  "length (proc_current_volumes s) = 3 \<Longrightarrow>
   length (proc_current_volumes (load_level be level_name s)) = 3"
  by (auto simp: load_level_def Let_def start_loops_def split: option.splits prod.splits bool.splits)

lemma update_volumes_length:
  assumes "length (proc_current_volumes s) = 3"
  shows "\<exists>s'. update player_speed near s = Inr s' \<and> length (proc_current_volumes s') = 3"
proof (cases "mixer_available s")
  case False
  then show ?thesis using assms by (simp add: update_def)
next
  case True
  obtain a b c where abc: "proc_current_volumes s = [a, b, c]"
    using assms by (auto simp: length_Suc_conv numeral_3_eq_3)
  from update_frame [OF True abc, of player_speed near] show ?thesis by auto
qed

lemma step_volumes_length:
  assumes "length (proc_current_volumes s) = 3"
  shows "\<exists>s'. step be c s = Inr s' \<and> length (proc_current_volumes s') = 3"
proof (cases c)
  case (SelectTheme x)
  then show ?thesis using load_level_volumes_length [OF assms] by simp
next
  case (SetRoute r)
  then show ?thesis using assms by (simp add: set_route_only_route)
next
  case (Frame player_speed near)
  then show ?thesis using update_volumes_length [OF assms] by simp
qed

lemma run_never_raises:
  "length (proc_current_volumes s) = 3 \<Longrightarrow>
   \<exists>s'. run cs s = Inr s' \<and> length (proc_current_volumes s') = 3"
proof (induction cs arbitrary: s)
  case Nil
  then show ?case by simp
next
  case (Cons bc cs)
  obtain be c where bc: "bc = (be, c)" by (cases bc)
  from step_volumes_length [OF Cons.prems] obtain s1 where
    s1: "step be c s = Inr s1" "length (proc_current_volumes s1) = 3" by blast
  from Cons.IH [OF s1(2)] show ?case using bc s1(1) by simp
qed

lemma run_from_constructor:
  "\<exists>s'. run cs (sound_manager_init init_ok g) = Inr s'"
proof -
  have "length (proc_current_volumes (sound_manager_init init_ok g)) = 3"
    by (simp add: sound_manager_init_def)
  from run_never_raises [OF this] show ?thesis by blast
qed

end
